theory Spec2Isabelle
  imports Complex_Main
begin

section \<open>JavaScript strings\<close>

text \<open>
  A JavaScript string is a sequence of UTF-16 code units; a code unit is a natural number
  below 65536. String literals of the source are written \<open>js ''...''\<close>.
\<close>

type_synonym jstring = "nat list"

definition js :: "string \<Rightarrow> jstring" where
  "js s = map of_char s"

text \<open>\<open>s.startsWith(p)\<close> and \<open>s.includes(n)\<close>.\<close>

definition js_startsWith :: "jstring \<Rightarrow> jstring \<Rightarrow> bool" where
  "js_startsWith s p = (take (length p) s = p)"

fun js_includes :: "jstring \<Rightarrow> jstring \<Rightarrow> bool" where
  "js_includes [] n = (n = [])"
| "js_includes (c # cs) n = (js_startsWith (c # cs) n \<or> js_includes cs n)"

section \<open>Configuration and the request URL\<close>

text \<open>The interface \<open>FastGPTConfig\<close> of \<open>types/storage.ts\<close>.\<close>

record fastgpt_config =
  baseUrl :: jstring
  appId :: jstring
  apiKey :: jstring

text \<open>
  \<open>s.replace(/\/$/, "")\<close>: the pattern has no flag, so it matches one slash (code unit 47)
  at the very end of the string and removes it.
\<close>

definition strip_trailing_slash :: "jstring \<Rightarrow> jstring" where
  "strip_trailing_slash s = (if s \<noteq> [] \<and> last s = 47 then butlast s else s)"

text \<open>
  \<open>buildApiUrl(endpoint)\<close>:
  \<^verbatim>\<open>const baseUrl = this.config.baseUrl.replace(/\/$/, "");
const apiPath = baseUrl.includes("/api") ? "" : "/api";
return `${baseUrl}${apiPath}${endpoint}`;\<close>
\<close>

definition buildApiUrl :: "fastgpt_config \<Rightarrow> jstring \<Rightarrow> jstring" where
  "buildApiUrl config endpoint =
     (let baseUrl' = strip_trailing_slash (baseUrl config);
          apiPath = (if js_includes baseUrl' (js ''/api'') then [] else js ''/api'')
      in baseUrl' @ apiPath @ endpoint)"

section \<open>Thrown values and the retry policy\<close>

text \<open>
  A thrown value is an \<open>Error\<close> object (with its \<open>name\<close> and \<open>message\<close>, and whether it is
  an instance of \<open>TypeError\<close>) or some value that is not an \<open>Error\<close>.
\<close>

datatype js_exn = JsError bool jstring jstring | NonError

text \<open>\<open>new Error(m)\<close> and the \<open>TypeError\<close> a failed \<open>fetch\<close> rejects with.\<close>

definition new_Error :: "jstring \<Rightarrow> js_exn" where
  "new_Error m = JsError False (js ''Error'') m"

definition new_TypeError :: "jstring \<Rightarrow> js_exn" where
  "new_TypeError m = JsError True (js ''TypeError'') m"

text \<open>The interface \<open>RetryOptions\<close>; delays are JavaScript numbers, modelled as reals.\<close>

record retry_options =
  maxRetries :: nat
  baseDelay :: real
  maxDelay :: real
  backoffMultiplier :: real

definition defaultRetryOptions :: retry_options where
  "defaultRetryOptions =
     \<lparr>maxRetries = 3, baseDelay = 1000, maxDelay = 10000, backoffMultiplier = 2\<rparr>"

text \<open>
  \<open>isRetryableError(error)\<close>: a \<open>TypeError\<close> whose message mentions \<open>fetch\<close>, or an
  \<open>Error\<close> whose message contains one of four fixed phrases.
\<close>

fun isRetryableError :: "js_exn \<Rightarrow> bool" where
  "isRetryableError (JsError isTypeError nm msg) =
     (if isTypeError \<and> js_includes msg (js ''fetch'') then True
      else if js_includes msg (js ''Rate limit exceeded'') then True
      else if js_includes msg (js ''Server error'') then True
      else if js_includes msg (js ''Request timeout'') then True
      else if js_includes msg (js ''Network error'') then True
      else False)"
| "isRetryableError NonError = False"

text \<open>
  The test that opens \<open>calculateRetryDelay\<close>:
  \<open>error instanceof Error && error.message.includes("Rate limit exceeded")\<close>.
\<close>

fun isRateLimitError :: "js_exn \<Rightarrow> bool" where
  "isRateLimitError (JsError isTypeError nm msg) = js_includes msg (js ''Rate limit exceeded'')"
| "isRateLimitError NonError = False"

text \<open>
  \<open>calculateRetryDelay(attempt, options, error)\<close>. The draw of \<open>Math.random()\<close>, a number
  in \<open>[0, 1)\<close>, is the parameter \<open>rnd\<close>.
\<close>

definition calculateRetryDelay :: "nat \<Rightarrow> retry_options \<Rightarrow> js_exn \<Rightarrow> real \<Rightarrow> real" where
  "calculateRetryDelay attempt options error rnd =
     (if isRateLimitError error
      then min (baseDelay options * backoffMultiplier options ^ (attempt + 1)) (maxDelay options)
      else
        (let delay = min (baseDelay options * backoffMultiplier options ^ attempt) (maxDelay options);
             jitter = rnd * 0.1 * delay
         in delay + jitter))"

section \<open>JSON values as the client reads them\<close>

text \<open>
  The result of \<open>JSON.parse\<close> or \<open>response.json()\<close>. A number keeps its numeral as written
  (for an integer numeral below \<open>2^53\<close> that is also what \<open>String\<close> prints); an object keeps
  its members in the order of the text.
\<close>

datatype json =
    JNull
  | JBool bool
  | JNum jstring
  | JStr jstring
  | JArr "json list"
  | JObj "(jstring \<times> json) list"

text \<open>What a property access yields: \<open>undefined\<close> or a JSON value.\<close>

datatype jsval = Undefined | Val json

text \<open>A numeral denotes zero when its mantissa has no digit from 1 to 9.\<close>

definition numeral_is_zero :: "jstring \<Rightarrow> bool" where
  "numeral_is_zero n =
     list_all (\<lambda>c. \<not> (49 \<le> c \<and> c \<le> 57)) (takeWhile (\<lambda>c. c \<noteq> 101 \<and> c \<noteq> 69) n)"

text \<open>Truthiness: \<open>undefined\<close>, \<open>null\<close>, \<open>false\<close>, zero and the empty string are falsy.\<close>

fun js_truthy :: "jsval \<Rightarrow> bool" where
  "js_truthy Undefined = False"
| "js_truthy (Val JNull) = False"
| "js_truthy (Val (JBool b)) = b"
| "js_truthy (Val (JNum n)) = (\<not> numeral_is_zero n)"
| "js_truthy (Val (JStr s)) = (s \<noteq> [])"
| "js_truthy (Val (JArr xs)) = True"
| "js_truthy (Val (JObj kvs)) = True"

text \<open>
  \<open>v.k\<close> for the property names this client reads (\<open>message\<close>, \<open>choices\<close>, \<open>delta\<close>,
  \<open>content\<close>, \<open>code\<close>, \<open>statusText\<close>, \<open>data\<close>): none of them is a property of a boolean, a
  number, a string or an array, so only an object can hold one (the last member of that
  name wins). Reading a property of \<open>null\<close> or \<open>undefined\<close> throws a \<open>TypeError\<close>, the
  result \<open>None\<close>.
\<close>

fun js_prop :: "json \<Rightarrow> jstring \<Rightarrow> jsval option" where
  "js_prop JNull k = None"
| "js_prop (JObj kvs) k = Some (case map_of (rev kvs) k of None \<Rightarrow> Undefined | Some v \<Rightarrow> Val v)"
| "js_prop (JBool b) k = Some Undefined"
| "js_prop (JNum n) k = Some Undefined"
| "js_prop (JStr s) k = Some Undefined"
| "js_prop (JArr xs) k = Some Undefined"

fun js_get :: "jsval \<Rightarrow> jstring \<Rightarrow> jsval option" where
  "js_get Undefined k = None"
| "js_get (Val v) k = js_prop v k"

text \<open>
  \<open>v[0]\<close>: the first element of an array, the first code unit of a string, the member
  \<open>"0"\<close> of an object.
\<close>

fun js_index0 :: "jsval \<Rightarrow> jsval option" where
  "js_index0 Undefined = None"
| "js_index0 (Val JNull) = None"
| "js_index0 (Val (JArr xs)) = Some (case xs of [] \<Rightarrow> Undefined | x # _ \<Rightarrow> Val x)"
| "js_index0 (Val (JStr s)) = Some (case s of [] \<Rightarrow> Undefined | c # _ \<Rightarrow> Val (JStr [c]))"
| "js_index0 (Val (JObj kvs)) = js_prop (JObj kvs) (js ''0'')"
| "js_index0 (Val (JBool b)) = Some Undefined"
| "js_index0 (Val (JNum n)) = Some Undefined"

text \<open>\<open>String(v)\<close>, as \<open>new Error(v)\<close> and a template literal apply it.\<close>

fun js_join :: "jstring \<Rightarrow> jstring list \<Rightarrow> jstring" where
  "js_join sep [] = []"
| "js_join sep [x] = x"
| "js_join sep (x # y # ys) = x @ sep @ js_join sep (y # ys)"

fun js_toString :: "json \<Rightarrow> jstring" where
  "js_toString JNull = js ''null''"
| "js_toString (JBool b) = (if b then js ''true'' else js ''false'')"
| "js_toString (JNum n) = n"
| "js_toString (JStr s) = s"
| "js_toString (JArr xs) =
     js_join (js '','') (map (\<lambda>x. if x = JNull then [] else js_toString x) xs)"
| "js_toString (JObj kvs) = js ''[object Object]''"

text \<open>The decimal digits of a number, as a template literal prints the status.\<close>

fun show_nat :: "nat \<Rightarrow> jstring" where
  "show_nat n = (if n < 10 then [48 + n] else show_nat (n div 10) @ [48 + n mod 10])"

declare show_nat.simps [simp del]

text \<open>White space as \<open>trim\<close> and \<open>parseInt\<close> skip it (WhiteSpace and LineTerminator).\<close>

definition js_whitespace :: "nat \<Rightarrow> bool" where
  "js_whitespace c =
     (c = 9 \<or> c = 10 \<or> c = 11 \<or> c = 12 \<or> c = 13 \<or> c = 32 \<or> c = 160 \<or> c = 5760
      \<or> (8192 \<le> c \<and> c \<le> 8202) \<or> c = 8232 \<or> c = 8233 \<or> c = 8239 \<or> c = 8287
      \<or> c = 12288 \<or> c = 65279)"

definition js_trim :: "jstring \<Rightarrow> jstring" where
  "js_trim s = rev (dropWhile js_whitespace (rev (dropWhile js_whitespace s)))"

text \<open>\<open>parseInt(s, 10)\<close>: an optional sign and the longest run of decimal digits, or \<open>NaN\<close>.\<close>

datatype parsed_int = NaN | IntVal int

definition is_digit :: "nat \<Rightarrow> bool" where
  "is_digit c = (48 \<le> c \<and> c \<le> 57)"

definition digits_value :: "jstring \<Rightarrow> int" where
  "digits_value ds = foldl (\<lambda>acc c. 10 * acc + (int c - 48)) 0 ds"

definition js_parseInt :: "jstring \<Rightarrow> parsed_int" where
  "js_parseInt s =
     (let t = dropWhile js_whitespace s;
          neg = (t \<noteq> [] \<and> hd t = 45);
          u = (if t \<noteq> [] \<and> (hd t = 45 \<or> hd t = 43) then tl t else t);
          z = takeWhile is_digit u
      in if z = [] then NaN else IntVal (if neg then - digits_value z else digits_value z))"

section \<open>HTTP responses and their classification\<close>

text \<open>
  One read of the body's reader: a chunk of bytes, or a rejection. The end of the list is
  the read that reports \<open>done\<close>.
\<close>

datatype read_result = ReadValue string | ReadRejected js_exn

text \<open>
  What the client observes of a \<open>Response\<close>: the status line, the \<open>Retry-After\<close> header
  (\<open>None\<close> when \<open>headers.get\<close> returns \<open>null\<close>), the outcome of \<open>response.json()\<close> (\<open>Inl\<close> when
  it rejects) and the body stream (\<open>None\<close> when \<open>response.body\<close> is \<open>null\<close>).
\<close>

record http_response =
  status :: nat
  statusText :: jstring
  retryAfterHeader :: "jstring option"
  jsonBody :: "js_exn + json"
  body :: "read_result list option"

definition response_ok :: "http_response \<Rightarrow> bool" where
  "response_ok r = (200 \<le> status r \<and> status r \<le> 299)"

text \<open>The interface \<open>FastGPTApiError\<close>; optional fields are options.\<close>

datatype api_error_type = Network | Authentication | Validation | Server | Unknown

record api_error =
  code :: "nat option"
  message :: json
  errType :: api_error_type
  retryable :: "bool option"
  retryAfter :: "parsed_int option"

text \<open>The \<open>catch\<close> branch of \<open>parseErrorResponse\<close>: the generic error.\<close>

definition generic_error :: "http_response \<Rightarrow> api_error" where
  "generic_error response =
     \<lparr>code = Some (status response),
      message = JStr (js ''HTTP '' @ show_nat (status response) @ js '': '' @ statusText response),
      errType = Unknown,
      retryable = Some (status response \<ge> 500),
      retryAfter = None\<rparr>"

text \<open>\<open>retryAfter ? parseInt(retryAfter, 10) : undefined\<close>.\<close>

definition parse_retry_after :: "jstring option \<Rightarrow> parsed_int option" where
  "parse_retry_after h =
     (case h of None \<Rightarrow> None | Some s \<Rightarrow> if s \<noteq> [] then Some (js_parseInt s) else None)"

text \<open>\<open>errorData.message || fallback\<close>, where reading \<open>message\<close> of \<open>null\<close> throws.\<close>

definition message_or :: "json \<Rightarrow> json \<Rightarrow> json option" where
  "message_or errorData fallback =
     (case js_prop errorData (js ''message'') of
        None \<Rightarrow> None
      | Some Undefined \<Rightarrow> Some fallback
      | Some (Val m) \<Rightarrow> Some (if js_truthy (Val m) then m else fallback))"

text \<open>
  \<open>parseErrorResponse(response)\<close>: the body is read as JSON first; when that fails, or
  when the \<open>switch\<close> throws, the \<open>catch\<close> branch returns the generic error.
\<close>

definition parseErrorResponse :: "http_response \<Rightarrow> api_error" where
  "parseErrorResponse response =
     (case jsonBody response of
        Inl e \<Rightarrow> generic_error response
      | Inr errorData \<Rightarrow>
          (let retryAfter' = retryAfterHeader response in
           if status response = 401 then
             \<lparr>code = Some 401, message = JStr (js ''Authentication failed: Invalid API key''),
              errType = Authentication, retryable = Some False, retryAfter = None\<rparr>
           else if status response = 403 then
             \<lparr>code = Some 403, message = JStr (js ''Access forbidden: Check your API key permissions''),
              errType = Authentication, retryable = Some False, retryAfter = None\<rparr>
           else if status response = 404 then
             \<lparr>code = Some 404, message = JStr (js ''API endpoint not found: Check your Base URL''),
              errType = Validation, retryable = Some False, retryAfter = None\<rparr>
           else if status response = 400 then
             (case message_or errorData (JStr (js ''Bad request: Invalid configuration'')) of
                None \<Rightarrow> generic_error response
              | Some m \<Rightarrow>
                  \<lparr>code = Some 400, message = m,
                   errType = Validation, retryable = Some False, retryAfter = None\<rparr>)
           else if status response = 429 then
             \<lparr>code = Some 429, message = JStr (js ''Rate limit exceeded: Too many requests''),
              errType = Server, retryable = Some True,
              retryAfter = parse_retry_after retryAfter'\<rparr>
           else if status response = 500 \<or> status response = 502 \<or> status response = 503
                   \<or> status response = 504 then
             \<lparr>code = Some (status response),
              message = JStr (js ''Server error: FastGPT service is temporarily unavailable''),
              errType = Server, retryable = Some True,
              retryAfter = parse_retry_after retryAfter'\<rparr>
           else if status response = 408 then
             \<lparr>code = Some 408,
              message = JStr (js ''Request timeout: The server took too long to respond''),
              errType = Server, retryable = Some True, retryAfter = None\<rparr>
           else
             (case message_or errorData
                     (JStr (js ''HTTP '' @ show_nat (status response) @ js '': ''
                            @ statusText response)) of
                None \<Rightarrow> generic_error response
              | Some m \<Rightarrow>
                  \<lparr>code = Some (status response), message = m,
                   errType = Unknown, retryable = Some (status response \<ge> 500),
                   retryAfter = None\<rparr>)))"

section \<open>Configuration validation\<close>

text \<open>
  \<open>validateConfig()\<close>. The constructor \<open>new URL(baseUrl)\<close> belongs to the platform: the
  parameter \<open>url_protocol\<close> gives the \<open>protocol\<close> of the parsed URL, or \<open>None\<close> when the
  constructor throws.
\<close>

definition validation_error :: "string \<Rightarrow> api_error" where
  "validation_error m =
     \<lparr>code = None, message = JStr (js m), errType = Validation, retryable = None,
      retryAfter = None\<rparr>"

definition validateConfig :: "(jstring \<Rightarrow> jstring option) \<Rightarrow> fastgpt_config \<Rightarrow> api_error option" where
  "validateConfig url_protocol config =
     (if baseUrl config = [] then Some (validation_error ''Base URL is required'')
      else if appId config = [] then Some (validation_error ''App ID is required'')
      else if apiKey config = [] then Some (validation_error ''API Key is required'')
      else
        (case url_protocol (baseUrl config) of
           None \<Rightarrow> Some (validation_error ''Invalid Base URL format'')
         | Some protocol \<Rightarrow>
             if \<not> (protocol = js ''http:'' \<or> protocol = js ''https:'')
             then Some (validation_error ''Base URL must use HTTP or HTTPS protocol'')
             else None))"

section \<open>The retry executor\<close>

text \<open>
  A run of a call: its result, the number of times the operation (and with it \<open>fetch\<close>)
  was invoked, and the delays slept between the attempts, in order.
\<close>

record 'a retry_run =
  result :: 'a
  attempts :: nat
  delays :: "real list"

text \<open>\<open>throw lastError!\<close> after the loop; \<open>lastError\<close> is \<open>undefined\<close> until an attempt failed.\<close>

definition throw_lastError :: "js_exn option \<Rightarrow> (js_exn + 'a) retry_run" where
  "throw_lastError lastError =
     \<lparr>result = Inl (case lastError of None \<Rightarrow> NonError | Some e \<Rightarrow> e), attempts = 0, delays = []\<rparr>"

text \<open>
  The loop of \<open>executeWithRetry\<close>, from the iteration with index \<open>attempt\<close> on.
  \<open>operation n\<close> is the outcome of the invocation in iteration \<open>n\<close> (\<open>Inl\<close> what it throws),
  \<open>rnd n\<close> the draw of \<open>Math.random()\<close> there.
\<close>

function executeWithRetry_loop ::
  "(nat \<Rightarrow> js_exn + 'a) \<Rightarrow> retry_options \<Rightarrow> (nat \<Rightarrow> real) \<Rightarrow> nat \<Rightarrow> js_exn option
     \<Rightarrow> (js_exn + 'a) retry_run" where
  "executeWithRetry_loop operation options rnd attempt lastError =
     (if attempt \<le> maxRetries options then
        (case operation attempt of
           Inr v \<Rightarrow> \<lparr>result = Inr v, attempts = 1, delays = []\<rparr>
         | Inl err \<Rightarrow>
             if attempt = maxRetries options then
               (throw_lastError (Some err)) \<lparr>attempts := 1\<rparr>
             else if \<not> isRetryableError err then
               \<lparr>result = Inl err, attempts = 1, delays = []\<rparr>
             else
               (let delay = calculateRetryDelay attempt options err (rnd attempt);
                    run = executeWithRetry_loop operation options rnd (attempt + 1) (Some err)
                in run \<lparr>attempts := attempts run + 1, delays := delay # delays run\<rparr>))
      else throw_lastError lastError)"
  by pat_completeness auto
termination
  by (relation "measure (\<lambda>(operation, options, rnd, attempt, lastError).
        maxRetries options + 1 - attempt)") auto

declare executeWithRetry_loop.simps [simp del]

definition executeWithRetry ::
  "(nat \<Rightarrow> js_exn + 'a) \<Rightarrow> retry_options \<Rightarrow> (nat \<Rightarrow> real) \<Rightarrow> (js_exn + 'a) retry_run" where
  "executeWithRetry operation options rnd = executeWithRetry_loop operation options rnd 0 None"

section \<open>Non-streaming calls\<close>

text \<open>What \<open>fetch\<close> does in one attempt: it rejects, or resolves to a response.\<close>

datatype fetch_result = FetchRejected js_exn | FetchResolved http_response

text \<open>
  The \<open>TypeError\<close> of reading a property of \<open>null\<close>. Its text is the engine's; it holds none
  of the phrases the client looks for.
\<close>

definition null_property_error :: js_exn where
  "null_property_error = new_TypeError (js ''Cannot read properties of null'')"

text \<open>
  \<open>if (data.choices && data.choices[0] && data.choices[0].message)
       return data.choices[0].message.content;
     throw new Error("Invalid response format from FastGPT API");\<close>
\<close>

definition response_content :: "json \<Rightarrow> js_exn + jsval" where
  "response_content data =
     (let invalid = Inl (new_Error (js ''Invalid response format from FastGPT API'')) in
      case js_prop data (js ''choices'') of
        None \<Rightarrow> Inl null_property_error
      | Some choices \<Rightarrow>
          if \<not> js_truthy choices then invalid
          else (case js_index0 choices of
                  None \<Rightarrow> Inl null_property_error
                | Some choice \<Rightarrow>
                    if \<not> js_truthy choice then invalid
                    else (case js_get choice (js ''message'') of
                            None \<Rightarrow> Inl null_property_error
                          | Some msg \<Rightarrow>
                              if \<not> js_truthy msg then invalid
                              else (case js_get msg (js ''content'') of
                                      None \<Rightarrow> Inl null_property_error
                                    | Some content \<Rightarrow> Inr content))))"

text \<open>The operation \<open>sendMessage\<close> hands to \<open>executeWithRetry\<close>.\<close>

definition sendMessage_operation :: "(nat \<Rightarrow> fetch_result) \<Rightarrow> nat \<Rightarrow> js_exn + jsval" where
  "sendMessage_operation fetch attempt =
     (case fetch attempt of
        FetchRejected e \<Rightarrow> Inl e
      | FetchResolved response \<Rightarrow>
          if \<not> response_ok response
          then Inl (new_Error (js_toString (message (parseErrorResponse response))))
          else (case jsonBody response of
                  Inl e \<Rightarrow> Inl e
                | Inr data \<Rightarrow> response_content data))"

definition sendMessage ::
  "(jstring \<Rightarrow> jstring option) \<Rightarrow> fastgpt_config \<Rightarrow> (nat \<Rightarrow> fetch_result) \<Rightarrow> (nat \<Rightarrow> real)
     \<Rightarrow> (js_exn + jsval) retry_run" where
  "sendMessage url_protocol config fetch rnd =
     (case validateConfig url_protocol config of
        Some validationError \<Rightarrow>
          \<lparr>result = Inl (new_Error (js_toString (message validationError))),
           attempts = 0, delays = []\<rparr>
      | None \<Rightarrow> executeWithRetry (sendMessage_operation fetch) defaultRetryOptions rnd)"

text \<open>\<open>makeTestRequest\<close> and \<open>testConnection\<close>.\<close>

record test_response =
  mtr_success :: bool
  mtr_error :: "api_error option"

record connection_test_result =
  ctr_success :: bool
  ctr_error :: "json option"
  ctr_details :: "jstring option"

definition makeTestRequest_operation :: "(nat \<Rightarrow> fetch_result) \<Rightarrow> nat \<Rightarrow> js_exn + test_response" where
  "makeTestRequest_operation fetch attempt =
     (case fetch attempt of
        FetchRejected e \<Rightarrow> Inl e
      | FetchResolved response \<Rightarrow>
          if response_ok response then Inr \<lparr>mtr_success = True, mtr_error = None\<rparr>
          else
            (let errorData = parseErrorResponse response in
             if retryable errorData = Some True
             then Inl (new_Error (js_toString (message errorData)))
             else Inr \<lparr>mtr_success = False, mtr_error = Some errorData\<rparr>))"

text \<open>The \<open>catch\<close> of \<open>makeTestRequest\<close>: every thrown value becomes a network error.\<close>

fun network_error_of :: "js_exn \<Rightarrow> api_error" where
  "network_error_of (JsError isTypeError nm msg) =
     (if isTypeError \<and> js_includes msg (js ''fetch'')
      then \<lparr>code = None,
            message = JStr (js ''Network error: Unable to connect to FastGPT server''),
            errType = Network, retryable = Some True, retryAfter = None\<rparr>
      else \<lparr>code = None, message = JStr msg, errType = Network, retryable = Some True,
            retryAfter = None\<rparr>)"
| "network_error_of NonError =
     \<lparr>code = None, message = JStr (js ''Unknown network error''), errType = Network,
      retryable = Some True, retryAfter = None\<rparr>"

definition makeTestRequest :: "(nat \<Rightarrow> fetch_result) \<Rightarrow> (nat \<Rightarrow> real) \<Rightarrow> test_response retry_run" where
  "makeTestRequest fetch rnd =
     (let run = executeWithRetry (makeTestRequest_operation fetch) defaultRetryOptions rnd in
      \<lparr>result = (case result run of
                   Inr response \<Rightarrow> response
                 | Inl e \<Rightarrow> \<lparr>mtr_success = False, mtr_error = Some (network_error_of e)\<rparr>),
       attempts = attempts run, delays = delays run\<rparr>)"

fun type_name :: "api_error_type \<Rightarrow> jstring" where
  "type_name Network = js ''network''"
| "type_name Authentication = js ''authentication''"
| "type_name Validation = js ''validation''"
| "type_name Server = js ''server''"
| "type_name Unknown = js ''unknown''"

text \<open>
  \<open>testConnection()\<close>. Neither \<open>validateConfig\<close> nor \<open>makeTestRequest\<close> throws, so the outer
  \<open>catch\<close> is never entered.
\<close>

definition testConnection ::
  "(jstring \<Rightarrow> jstring option) \<Rightarrow> fastgpt_config \<Rightarrow> (nat \<Rightarrow> fetch_result) \<Rightarrow> (nat \<Rightarrow> real)
     \<Rightarrow> connection_test_result retry_run" where
  "testConnection url_protocol config fetch rnd =
     (case validateConfig url_protocol config of
        Some validationError \<Rightarrow>
          \<lparr>result = \<lparr>ctr_success = False, ctr_error = Some (message validationError),
                      ctr_details = Some (js ''Configuration validation failed'')\<rparr>,
           attempts = 0, delays = []\<rparr>
      | None \<Rightarrow>
          (let run = makeTestRequest fetch rnd; response = result run in
           \<lparr>result =
              (if mtr_success response
               then \<lparr>ctr_success = True, ctr_error = None,
                     ctr_details = Some (js ''Connection test successful'')\<rparr>
               else \<lparr>ctr_success = False,
                     ctr_error = Some (case mtr_error response of
                                  None \<Rightarrow> JStr (js ''Connection test failed'')
                                | Some e \<Rightarrow> if js_truthy (Val (message e)) then message e
                                            else JStr (js ''Connection test failed'')),
                     ctr_details = Some (case mtr_error response of
                                  None \<Rightarrow> js ''Unknown error''
                                | Some e \<Rightarrow> type_name (errType e))\<rparr>),
            attempts = attempts run, delays = delays run\<rparr>))"

section \<open>A reader for JSON texts\<close>

text \<open>
  \<open>JSON.parse\<close> belongs to the platform, and the stream decoders take it as a parameter.
  For the concrete evaluations, \<open>JSON_parse\<close> reads a text by the JSON grammar (white
  space, the six structural characters, strings with their escapes, numbers, the three
  literal names): first the tokens, then the values, with a stack of the arrays and
  objects that are still open. \<open>None\<close> stands for the \<open>SyntaxError\<close>.
\<close>

datatype token =
    TLBrace | TRBrace | TLBracket | TRBracket | TColon | TComma
  | TString jstring | TNumber jstring | TTrue | TFalse | TNull

definition hex_digit :: "nat \<Rightarrow> nat option" where
  "hex_digit c =
     (if 48 \<le> c \<and> c \<le> 57 then Some (c - 48)
      else if 97 \<le> c \<and> c \<le> 102 then Some (c - 87)
      else if 65 \<le> c \<and> c \<le> 70 then Some (c - 55)
      else None)"

definition hex4 :: "jstring \<Rightarrow> nat option" where
  "hex4 s =
     (case map hex_digit s of
        [Some a, Some b, Some c, Some d] \<Rightarrow> Some (((a * 16 + b) * 16 + c) * 16 + d)
      | _ \<Rightarrow> None)"

definition unescape :: "nat \<Rightarrow> nat option" where
  "unescape e =
     (if e = 34 \<or> e = 92 \<or> e = 47 then Some e
      else if e = 98 then Some 8
      else if e = 102 then Some 12
      else if e = 110 then Some 10
      else if e = 114 then Some 13
      else if e = 116 then Some 9
      else None)"

fun scan_string :: "jstring \<Rightarrow> (jstring \<times> nat) option" where
  "scan_string [] = None"
| "scan_string (c # cs) =
     (if c = 34 then Some ([], 1)
      else if c = 92 then
        (case cs of
           [] \<Rightarrow> None
         | e # es \<Rightarrow>
             if e = 117 then
               (case hex4 (take 4 es) of
                  None \<Rightarrow> None
                | Some u \<Rightarrow>
                    (case scan_string (drop 4 es) of
                       None \<Rightarrow> None
                     | Some (s, n) \<Rightarrow> Some (u # s, n + 6)))
             else
               (case unescape e of
                  None \<Rightarrow> None
                | Some u \<Rightarrow>
                    (case scan_string es of
                       None \<Rightarrow> None
                     | Some (s, n) \<Rightarrow> Some (u # s, n + 2))))
      else if c < 32 then None
      else (case scan_string cs of
              None \<Rightarrow> None
            | Some (s, n) \<Rightarrow> Some (c # s, n + 1)))"

definition number_char :: "nat \<Rightarrow> bool" where
  "number_char c = (is_digit c \<or> c = 45 \<or> c = 43 \<or> c = 46 \<or> c = 101 \<or> c = 69)"

definition valid_exponent :: "jstring \<Rightarrow> bool" where
  "valid_exponent r =
     (if r = [] then True
      else if hd r = 101 \<or> hd r = 69 then
        (let r' = tl r;
             ds = (if r' \<noteq> [] \<and> (hd r' = 43 \<or> hd r' = 45) then tl r' else r')
         in ds \<noteq> [] \<and> list_all is_digit ds)
      else False)"

definition valid_fraction :: "jstring \<Rightarrow> bool" where
  "valid_fraction r =
     (if r \<noteq> [] \<and> hd r = 46
      then takeWhile is_digit (tl r) \<noteq> [] \<and> valid_exponent (dropWhile is_digit (tl r))
      else valid_exponent r)"

definition valid_number :: "jstring \<Rightarrow> bool" where
  "valid_number s =
     (let s1 = (if s \<noteq> [] \<and> hd s = 45 then tl s else s);
          ip = takeWhile is_digit s1
      in ip \<noteq> [] \<and> (if hd ip = 48 then length ip = 1 else True)
         \<and> valid_fraction (dropWhile is_digit s1))"

fun tokenize :: "jstring \<Rightarrow> token list option" where
  "tokenize [] = Some []"
| "tokenize (c # cs) =
     (if c = 32 \<or> c = 9 \<or> c = 10 \<or> c = 13 then tokenize cs
      else if c = 123 then map_option (Cons TLBrace) (tokenize cs)
      else if c = 125 then map_option (Cons TRBrace) (tokenize cs)
      else if c = 91 then map_option (Cons TLBracket) (tokenize cs)
      else if c = 93 then map_option (Cons TRBracket) (tokenize cs)
      else if c = 58 then map_option (Cons TColon) (tokenize cs)
      else if c = 44 then map_option (Cons TComma) (tokenize cs)
      else if c = 34 then
        (case scan_string cs of
           None \<Rightarrow> None
         | Some (s, n) \<Rightarrow> map_option (Cons (TString s)) (tokenize (drop n cs)))
      else if c = 45 \<or> is_digit c then
        (let more = takeWhile number_char cs in
         if valid_number (c # more)
         then map_option (Cons (TNumber (c # more))) (tokenize (drop (length more) cs))
         else None)
      else if take 4 (c # cs) = js ''true'' then map_option (Cons TTrue) (tokenize (drop 3 cs))
      else if take 5 (c # cs) = js ''false'' then map_option (Cons TFalse) (tokenize (drop 4 cs))
      else if take 4 (c # cs) = js ''null'' then map_option (Cons TNull) (tokenize (drop 3 cs))
      else None)"

datatype frame =
    InArray "json list"
  | InObject "(jstring \<times> json) list"
  | InMember "(jstring \<times> json) list" jstring

datatype pmode =
    WantValue | WantValueOrEnd | WantKeyOrEnd | WantKey | WantColon | WantCommaOrEnd
  | Finished json

fun deliver :: "json \<Rightarrow> frame list \<Rightarrow> (pmode \<times> frame list) option" where
  "deliver v [] = Some (Finished v, [])"
| "deliver v (InArray es # st) = Some (WantCommaOrEnd, InArray (v # es) # st)"
| "deliver v (InMember kvs k # st) = Some (WantCommaOrEnd, InObject ((k, v) # kvs) # st)"
| "deliver v (InObject kvs # st) = None"

fun parse_value :: "token \<Rightarrow> frame list \<Rightarrow> (pmode \<times> frame list) option" where
  "parse_value TLBrace st = Some (WantKeyOrEnd, InObject [] # st)"
| "parse_value TLBracket st = Some (WantValueOrEnd, InArray [] # st)"
| "parse_value (TString s) st = deliver (JStr s) st"
| "parse_value (TNumber n) st = deliver (JNum n) st"
| "parse_value TTrue st = deliver (JBool True) st"
| "parse_value TFalse st = deliver (JBool False) st"
| "parse_value TNull st = deliver JNull st"
| "parse_value t st = None"

fun parse_step :: "pmode \<times> frame list \<Rightarrow> token \<Rightarrow> (pmode \<times> frame list) option" where
  "parse_step (WantValue, st) t = parse_value t st"
| "parse_step (WantValueOrEnd, InArray es # st) TRBracket = deliver (JArr (rev es)) st"
| "parse_step (WantValueOrEnd, st) t = parse_value t st"
| "parse_step (WantKeyOrEnd, InObject kvs # st) TRBrace = deliver (JObj (rev kvs)) st"
| "parse_step (WantKeyOrEnd, InObject kvs # st) (TString k) = Some (WantColon, InMember kvs k # st)"
| "parse_step (WantKey, InObject kvs # st) (TString k) = Some (WantColon, InMember kvs k # st)"
| "parse_step (WantColon, st) TColon = Some (WantValue, st)"
| "parse_step (WantCommaOrEnd, InArray es # st) TComma = Some (WantValue, InArray es # st)"
| "parse_step (WantCommaOrEnd, InArray es # st) TRBracket = deliver (JArr (rev es)) st"
| "parse_step (WantCommaOrEnd, InObject kvs # st) TComma = Some (WantKey, InObject kvs # st)"
| "parse_step (WantCommaOrEnd, InObject kvs # st) TRBrace = deliver (JObj (rev kvs)) st"
| "parse_step s t = None"

fun parse_tokens :: "pmode \<times> frame list \<Rightarrow> token list \<Rightarrow> (pmode \<times> frame list) option" where
  "parse_tokens s [] = Some s"
| "parse_tokens s (t # ts) =
     (case parse_step s t of None \<Rightarrow> None | Some s' \<Rightarrow> parse_tokens s' ts)"

definition JSON_parse :: "jstring \<Rightarrow> json option" where
  "JSON_parse s =
     (case tokenize s of
        None \<Rightarrow> None
      | Some ts \<Rightarrow>
          (case parse_tokens (WantValue, []) ts of
             Some (Finished v, []) \<Rightarrow> Some v
           | _ \<Rightarrow> None))"

section \<open>The text decoder\<close>

text \<open>
  \<open>new TextDecoder()\<close> decodes UTF-8 without the fatal flag and strips a byte order mark;
  \<open>decoder.decode(value, {stream: true})\<close> keeps the bytes of an unfinished code point for
  the next call. The state is that of the UTF-8 decoder of the Encoding standard, and
  whether a code point was already serialised (the \<open>BOM seen\<close> flag).
\<close>

record text_decoder =
  code_point :: nat
  bytes_seen :: nat
  bytes_needed :: nat
  lower_boundary :: nat
  upper_boundary :: nat
  bom_seen :: bool

definition new_TextDecoder :: text_decoder where
  "new_TextDecoder =
     \<lparr>code_point = 0, bytes_seen = 0, bytes_needed = 0, lower_boundary = 128,
      upper_boundary = 191, bom_seen = False\<rparr>"

definition reset_decoder :: "text_decoder \<Rightarrow> text_decoder" where
  "reset_decoder d =
     d\<lparr>code_point := 0, bytes_seen := 0, bytes_needed := 0, lower_boundary := 128,
       upper_boundary := 191\<rparr>"

text \<open>A byte read when no code point is under way; the result holds the code points put out.\<close>

definition utf8_lead :: "text_decoder \<Rightarrow> nat \<Rightarrow> text_decoder \<times> nat list" where
  "utf8_lead d b =
     (if b \<le> 127 then (d, [b])
      else if 194 \<le> b \<and> b \<le> 223 then (d\<lparr>bytes_needed := 1, code_point := b mod 32\<rparr>, [])
      else if 224 \<le> b \<and> b \<le> 239 then
        (d\<lparr>lower_boundary := (if b = 224 then 160 else lower_boundary d),
           upper_boundary := (if b = 237 then 159 else upper_boundary d),
           bytes_needed := 2, code_point := b mod 16\<rparr>, [])
      else if 240 \<le> b \<and> b \<le> 244 then
        (d\<lparr>lower_boundary := (if b = 240 then 144 else lower_boundary d),
           upper_boundary := (if b = 244 then 143 else upper_boundary d),
           bytes_needed := 3, code_point := b mod 8\<rparr>, [])
      else (d, [65533]))"

text \<open>
  One byte. A byte outside the expected range ends the unfinished code point with U+FFFD
  and is then read again as a lead byte.
\<close>

definition utf8_byte :: "text_decoder \<Rightarrow> nat \<Rightarrow> text_decoder \<times> nat list" where
  "utf8_byte d b =
     (if bytes_needed d = 0 then utf8_lead d b
      else if \<not> (lower_boundary d \<le> b \<and> b \<le> upper_boundary d) then
        (let (d', out) = utf8_lead (reset_decoder d) b in (d', 65533 # out))
      else
        (let d' = d\<lparr>lower_boundary := 128, upper_boundary := 191,
                     code_point := code_point d * 64 + b mod 64,
                     bytes_seen := bytes_seen d + 1\<rparr>
         in if bytes_seen d' \<noteq> bytes_needed d' then (d', [])
            else (reset_decoder d', [code_point d'])))"

text \<open>A code point as UTF-16 code units.\<close>

definition utf16_units :: "nat \<Rightarrow> jstring" where
  "utf16_units cp =
     (if cp < 65536 then [cp]
      else [55296 + (cp - 65536) div 1024, 56320 + (cp - 65536) mod 1024])"

text \<open>Serialising the code points: the first one of the stream is dropped when it is U+FEFF.\<close>

fun serialize :: "bool \<Rightarrow> nat list \<Rightarrow> bool \<times> jstring" where
  "serialize seen [] = (seen, [])"
| "serialize seen (cp # cps) =
     (if \<not> seen \<and> cp = 65279 then serialize True cps
      else (let (seen', out) = serialize True cps in (seen', utf16_units cp @ out)))"

definition decode_byte :: "text_decoder \<Rightarrow> char \<Rightarrow> text_decoder \<times> jstring" where
  "decode_byte d b =
     (let (d', cps) = utf8_byte d (of_char b);
          (seen, out) = serialize (bom_seen d') cps
      in (d'\<lparr>bom_seen := seen\<rparr>, out))"

text \<open>\<open>decoder.decode(value, {stream: true})\<close>: the new decoder state and the text.\<close>

fun decode :: "text_decoder \<Rightarrow> string \<Rightarrow> text_decoder \<times> jstring" where
  "decode d [] = (d, [])"
| "decode d (b # bs) =
     (let (d', out) = decode_byte d b;
          (d'', out') = decode d' bs
      in (d'', out @ out'))"

section \<open>Decoding the event stream\<close>

text \<open>\<open>s.split("\n")\<close>: the pieces between line feeds; never the empty list.\<close>

fun js_split_lines :: "jstring \<Rightarrow> jstring list" where
  "js_split_lines [] = [[]]"
| "js_split_lines (c # cs) =
     (if c = 10 then [] # js_split_lines cs
      else (case js_split_lines cs of
              [] \<Rightarrow> [[c]]
            | l # ls \<Rightarrow> (c # l) # ls))"

text \<open>
  The test of \<open>processEnhancedStreamResponse\<close> on a parsed frame,
  \<open>data.choices && data.choices[0] && data.choices[0].delta.content\<close>, and what it yields.
  A \<open>TypeError\<close> (a property of \<open>null\<close> or \<open>undefined\<close>) is caught by the \<open>catch\<close> of the
  frame, which goes on to the next line: nothing is yielded.
\<close>

definition enhanced_frame :: "json \<Rightarrow> json list" where
  "enhanced_frame data =
     (case js_prop data (js ''choices'') of
        None \<Rightarrow> []
      | Some choices \<Rightarrow>
          if \<not> js_truthy choices then []
          else (case js_index0 choices of
                  None \<Rightarrow> []
                | Some choice \<Rightarrow>
                    if \<not> js_truthy choice then []
                    else (case js_get choice (js ''delta'') of
                            None \<Rightarrow> []
                          | Some delta \<Rightarrow>
                              (case js_get delta (js ''content'') of
                                 None \<Rightarrow> []
                               | Some Undefined \<Rightarrow> []
                               | Some (Val content) \<Rightarrow>
                                   if js_truthy (Val content) then [content] else []))))"

text \<open>
  One complete line in the loop of \<open>processEnhancedStreamResponse\<close>. \<open>JSON.parse\<close> belongs
  to the platform: \<open>parse\<close> gives the parsed value, or \<open>None\<close> when it throws.
\<close>

definition enhanced_line :: "(jstring \<Rightarrow> json option) \<Rightarrow> jstring \<Rightarrow> json list" where
  "enhanced_line parse line =
     (let trimmedLine = js_trim line in
      if trimmedLine = [] \<or> trimmedLine = js ''data: [DONE]'' then []
      else if js_startsWith trimmedLine (js ''data: '') then
        (case parse (drop 6 trimmedLine) of
           None \<Rightarrow> []
         | Some data \<Rightarrow> enhanced_frame data)
      else [])"

text \<open>The rest of the buffer after the last read.\<close>

definition enhanced_rest :: "(jstring \<Rightarrow> json option) \<Rightarrow> jstring \<Rightarrow> json list" where
  "enhanced_rest parse buffer =
     (if js_trim buffer \<noteq> [] then
        (let trimmedLine = js_trim buffer in
         if js_startsWith trimmedLine (js ''data: '') \<and> trimmedLine \<noteq> js ''data: [DONE]'' then
           (case parse (drop 6 trimmedLine) of
              None \<Rightarrow> []
            | Some data \<Rightarrow> enhanced_frame data)
         else [])
      else [])"

text \<open>The \<open>catch\<close> of \<open>processEnhancedStreamResponse\<close>.\<close>

fun enhanced_catch :: "js_exn \<Rightarrow> js_exn" where
  "enhanced_catch (JsError isTypeError nm msg) =
     (if nm = js ''AbortError'' then new_Error (js ''Stream was aborted'')
      else if js_includes msg (js ''network'')
      then new_Error (js ''Network connection lost during streaming'')
      else JsError isTypeError nm msg)"
| "enhanced_catch NonError = NonError"

text \<open>
  \<open>processEnhancedStreamResponse(body, abortSignal)\<close> from iteration \<open>i\<close> of its loop on:
  the values yielded, in order, and how the generator ends (\<open>None\<close>: it returns; \<open>Some e\<close>:
  it throws \<open>e\<close>). \<open>aborted i\<close> tells whether the signal is aborted when iteration \<open>i\<close>
  checks it; the list holds the reads still to come.
\<close>

fun enhanced_loop ::
  "(jstring \<Rightarrow> json option) \<Rightarrow> (nat \<Rightarrow> bool) \<Rightarrow> nat \<Rightarrow> text_decoder \<Rightarrow> jstring
     \<Rightarrow> read_result list \<Rightarrow> json list \<times> js_exn option" where
  "enhanced_loop parse aborted i decoder buffer [] =
     (if aborted i then ([], Some (enhanced_catch (new_Error (js ''Stream was aborted''))))
      else (enhanced_rest parse buffer, None))"
| "enhanced_loop parse aborted i decoder buffer (r # reads) =
     (if aborted i then ([], Some (enhanced_catch (new_Error (js ''Stream was aborted''))))
      else
        (case r of
           ReadRejected e \<Rightarrow> ([], Some (enhanced_catch e))
         | ReadValue value \<Rightarrow>
             (let (decoder', chunk) = decode decoder value;
                  lines = js_split_lines (buffer @ chunk);
                  buffer' = last lines;
                  yielded = concat (map (enhanced_line parse) (butlast lines));
                  (later, ending) = enhanced_loop parse aborted (i + 1) decoder' buffer' reads
              in (yielded @ later, ending))))"

definition processEnhancedStreamResponse ::
  "(jstring \<Rightarrow> json option) \<Rightarrow> (nat \<Rightarrow> bool) \<Rightarrow> read_result list \<Rightarrow> json list \<times> js_exn option" where
  "processEnhancedStreamResponse parse aborted reads =
     enhanced_loop parse aborted 0 new_TextDecoder [] reads"

text \<open>
  \<open>processStreamResponse(body)\<close>. A frame with truthy \<open>code\<close>, \<open>statusText\<close> and \<open>message\<close> is
  an error report of the service: the generator throws an \<open>Error\<close> listing them, and the
  \<open>catch\<close> of the frame throws it again. Any other exception of the frame is skipped.
\<close>

datatype frame_result = Skip | Yield json | ThrowApiError json

definition truthy_prop :: "json \<Rightarrow> jstring \<Rightarrow> bool option" where
  "truthy_prop v k = map_option js_truthy (js_prop v k)"

definition plain_frame :: "json \<Rightarrow> frame_result" where
  "plain_frame data =
     (case truthy_prop data (js ''code'') of
        None \<Rightarrow> Skip
      | Some has_code \<Rightarrow>
          if has_code \<and> truthy_prop data (js ''statusText'') = Some True
             \<and> truthy_prop data (js ''message'') = Some True
          then ThrowApiError data
          else
            (case js_prop data (js ''choices'') of
               None \<Rightarrow> Skip
             | Some choices \<Rightarrow>
                 if \<not> js_truthy choices then Skip
                 else (case js_index0 choices of
                         None \<Rightarrow> Skip
                       | Some choice \<Rightarrow>
                           if \<not> js_truthy choice then Skip
                           else (case js_get choice (js ''delta'') of
                                   None \<Rightarrow> Skip
                                 | Some delta \<Rightarrow>
                                     if \<not> js_truthy delta then Skip
                                     else (case js_get delta (js ''content'') of
                                             None \<Rightarrow> Skip
                                           | Some Undefined \<Rightarrow> Skip
                                           | Some (Val content) \<Rightarrow>
                                               if js_truthy (Val content) then Yield content
                                               else Skip)))))"

definition plain_line :: "(jstring \<Rightarrow> json option) \<Rightarrow> jstring \<Rightarrow> frame_result" where
  "plain_line parse line =
     (let trimmedLine = js_trim line in
      if trimmedLine = [] \<or> trimmedLine = js ''data: [DONE]'' then Skip
      else if js_startsWith trimmedLine (js ''data: '') then
        (case parse (drop 6 trimmedLine) of
           None \<Rightarrow> Skip
         | Some data \<Rightarrow> plain_frame data)
      else Skip)"

text \<open>How a generator ends: it returns, or it throws a value or the error report.\<close>

datatype stream_end = Returned | Threw js_exn | ThrewApiError json

text \<open>The lines of one chunk, until one throws.\<close>

fun plain_lines :: "(jstring \<Rightarrow> json option) \<Rightarrow> jstring list \<Rightarrow> json list \<times> json option" where
  "plain_lines parse [] = ([], None)"
| "plain_lines parse (line # lines) =
     (case plain_line parse line of
        Skip \<Rightarrow> plain_lines parse lines
      | Yield content \<Rightarrow> (let (later, thrown) = plain_lines parse lines in (content # later, thrown))
      | ThrowApiError data \<Rightarrow> ([], Some data))"

fun plain_loop ::
  "(jstring \<Rightarrow> json option) \<Rightarrow> text_decoder \<Rightarrow> read_result list \<Rightarrow> json list \<times> stream_end" where
  "plain_loop parse decoder [] = ([], Returned)"
| "plain_loop parse decoder (ReadRejected e # reads) = ([], Threw e)"
| "plain_loop parse decoder (ReadValue value # reads) =
     (let (decoder', chunk) = decode decoder value;
          (yielded, thrown) = plain_lines parse (js_split_lines chunk)
      in case thrown of
           Some data \<Rightarrow> (yielded, ThrewApiError data)
         | None \<Rightarrow>
             (let (later, ending) = plain_loop parse decoder' reads
              in (yielded @ later, ending)))"

definition processStreamResponse ::
  "(jstring \<Rightarrow> json option) \<Rightarrow> read_result list \<Rightarrow> json list \<times> stream_end" where
  "processStreamResponse parse reads = plain_loop parse new_TextDecoder reads"

text \<open>What the lines of a text yield, one after the other.\<close>

definition lines_yield :: "(jstring \<Rightarrow> json option) \<Rightarrow> jstring \<Rightarrow> json list" where
  "lines_yield parse s = concat (map (enhanced_line parse) (js_split_lines s))"

section \<open>Streaming calls with events\<close>

text \<open>The interfaces \<open>StreamingError\<close> and \<open>StreamingEvent\<close>.\<close>

datatype streaming_error_type = ConnectionError | ParsingError | TimeoutError | AbortError

record streaming_error =
  stype :: streaming_error_type
  smessage :: jstring
  recoverable :: bool

datatype event_type = StartEvent | ChunkEvent | ErrorEvent | CompleteEvent | AbortEvent

record event_metadata =
  messageId :: "jstring option"
  totalChunks :: "nat option"
  currentChunk :: "nat option"

record streaming_event =
  etype :: event_type
  edata :: "json option"
  eerror :: "streaming_error option"
  emetadata :: "event_metadata option"

text \<open>\<open>classifyStreamingError(error)\<close>.\<close>

fun classifyStreamingError :: "js_exn \<Rightarrow> streaming_error" where
  "classifyStreamingError (JsError isTypeError nm msg) =
     (if nm = js ''AbortError'' \<or> js_includes msg (js ''aborted'') then
        \<lparr>stype = AbortError, smessage = js ''Request was cancelled or timed out'',
         recoverable = True\<rparr>
      else if js_includes msg (js ''timeout'') then
        \<lparr>stype = TimeoutError, smessage = js ''Request timed out while streaming'',
         recoverable = True\<rparr>
      else if js_includes msg (js ''network'') \<or> js_includes msg (js ''fetch'')
              \<or> js_includes msg (js ''connection lost'') then
        \<lparr>stype = ConnectionError, smessage = js ''Network connection lost during streaming'',
         recoverable = True\<rparr>
      else if js_includes msg (js ''parse'') \<or> js_includes msg (js ''JSON'') then
        \<lparr>stype = ParsingError, smessage = js ''Failed to parse streaming response'',
         recoverable = False\<rparr>
      else if js_includes msg (js ''Authentication failed'')
              \<or> js_includes msg (js ''Invalid API key'')
              \<or> js_includes msg (js ''Access forbidden'') then
        \<lparr>stype = ConnectionError, smessage = msg, recoverable = False\<rparr>
      else if js_includes msg (js ''Server error'')
              \<or> js_includes msg (js ''service unavailable'') then
        \<lparr>stype = ConnectionError, smessage = msg, recoverable = True\<rparr>
      else \<lparr>stype = ConnectionError, smessage = msg, recoverable = True\<rparr>)"
| "classifyStreamingError NonError =
     \<lparr>stype = ConnectionError, smessage = js ''An unknown error occurred during streaming'',
      recoverable = False\<rparr>"

text \<open>
  The \<open>catch\<close> of \<open>createEnhancedStreamGenerator\<close>: an \<open>AbortError\<close> becomes a plain
  \<open>Error\<close>, anything else is thrown again.
\<close>

fun generator_catch :: "js_exn \<Rightarrow> js_exn" where
  "generator_catch (JsError isTypeError nm msg) =
     (if nm = js ''AbortError'' then new_Error (js ''Request was aborted'')
      else JsError isTypeError nm msg)"
| "generator_catch NonError = NonError"

text \<open>
  \<open>createEnhancedStreamGenerator\<close> in one attempt: it throws, or returns the generator
  over the reads of the response body. The timer and the caller's signal act through the
  environment only: a \<open>fetch\<close> that rejects with an \<open>AbortError\<close>, a read that rejects, or
  a signal found aborted by the loop of the generator.
\<close>

definition createEnhancedStreamGenerator ::
  "(nat \<Rightarrow> fetch_result) \<Rightarrow> nat \<Rightarrow> js_exn + read_result list" where
  "createEnhancedStreamGenerator fetch attempt =
     (case fetch attempt of
        FetchRejected e \<Rightarrow> Inl (generator_catch e)
      | FetchResolved response \<Rightarrow>
          if \<not> response_ok response
          then Inl (generator_catch
                      (new_Error (js_toString (message (parseErrorResponse response)))))
          else (case body response of
                  None \<Rightarrow> Inl (generator_catch (new_Error (js ''No response body received'')))
                | Some reads \<Rightarrow> Inr reads))"

text \<open>The same code, for a request that carries the history.\<close>

definition createEnhancedStreamGeneratorWithHistory ::
  "(nat \<Rightarrow> fetch_result) \<Rightarrow> nat \<Rightarrow> js_exn + read_result list" where
  "createEnhancedStreamGeneratorWithHistory fetch attempt =
     (case fetch attempt of
        FetchRejected e \<Rightarrow> Inl (generator_catch e)
      | FetchResolved response \<Rightarrow>
          if \<not> response_ok response
          then Inl (generator_catch
                      (new_Error (js_toString (message (parseErrorResponse response)))))
          else (case body response of
                  None \<Rightarrow> Inl (generator_catch (new_Error (js ''No response body received'')))
                | Some reads \<Rightarrow> Inr reads))"

text \<open>The events of the generator, as records.\<close>

definition validation_event :: "api_error \<Rightarrow> streaming_event" where
  "validation_event validationError =
     \<lparr>etype = ErrorEvent, edata = None,
      eerror = Some \<lparr>stype = ConnectionError, smessage = js_toString (message validationError),
                     recoverable = False\<rparr>,
      emetadata = None\<rparr>"

definition start_event :: "jstring \<Rightarrow> streaming_event" where
  "start_event mid =
     \<lparr>etype = StartEvent, edata = None, eerror = None,
      emetadata = Some \<lparr>messageId = Some mid, totalChunks = Some 0, currentChunk = Some 0\<rparr>\<rparr>"

definition chunk_event :: "jstring \<Rightarrow> nat \<Rightarrow> json \<Rightarrow> streaming_event" where
  "chunk_event mid chunkCount chunk =
     \<lparr>etype = ChunkEvent, edata = Some chunk, eerror = None,
      emetadata = Some \<lparr>messageId = Some mid, totalChunks = None,
                        currentChunk = Some chunkCount\<rparr>\<rparr>"

definition complete_event :: "jstring \<Rightarrow> nat \<Rightarrow> streaming_event" where
  "complete_event mid chunkCount =
     \<lparr>etype = CompleteEvent, edata = None, eerror = None,
      emetadata = Some \<lparr>messageId = Some mid, totalChunks = Some chunkCount,
                        currentChunk = Some chunkCount\<rparr>\<rparr>"

definition error_event :: "jstring \<Rightarrow> nat \<Rightarrow> js_exn \<Rightarrow> streaming_event" where
  "error_event mid chunkCount e =
     \<lparr>etype = ErrorEvent, edata = None, eerror = Some (classifyStreamingError e),
      emetadata = Some \<lparr>messageId = Some mid, totalChunks = None,
                        currentChunk = Some chunkCount\<rparr>\<rparr>"

text \<open>\<open>for await (const chunk of streamGenerator) { chunkCount++; yield ... }\<close>.\<close>

fun chunk_events :: "jstring \<Rightarrow> nat \<Rightarrow> json list \<Rightarrow> streaming_event list" where
  "chunk_events mid chunkCount [] = []"
| "chunk_events mid chunkCount (chunk # chunks) =
     chunk_event mid (chunkCount + 1) chunk # chunk_events mid (chunkCount + 1) chunks"

text \<open>
  The body shared by \<open>sendMessageStreamWithEvents\<close> and
  \<open>sendMessageWithHistoryStreamWithEvents\<close>, which differ in the generator they create:
  all events of one call, in order. \<open>mid\<close> is the message id drawn from the clock and
  \<open>Math.random()\<close>.
\<close>

definition stream_with_events ::
  "((nat \<Rightarrow> fetch_result) \<Rightarrow> nat \<Rightarrow> js_exn + read_result list)
     \<Rightarrow> (jstring \<Rightarrow> jstring option) \<Rightarrow> (jstring \<Rightarrow> json option) \<Rightarrow> fastgpt_config
     \<Rightarrow> (nat \<Rightarrow> fetch_result) \<Rightarrow> (nat \<Rightarrow> real) \<Rightarrow> (nat \<Rightarrow> bool) \<Rightarrow> jstring
     \<Rightarrow> streaming_event list" where
  "stream_with_events create url_protocol parse config fetch rnd aborted mid =
     (case validateConfig url_protocol config of
        Some validationError \<Rightarrow> [validation_event validationError]
      | None \<Rightarrow>
          start_event mid #
          (case result (executeWithRetry (create fetch) defaultRetryOptions rnd) of
             Inl e \<Rightarrow> [error_event mid 0 e]
           | Inr reads \<Rightarrow>
               (let (chunks, ending) = processEnhancedStreamResponse parse aborted reads in
                chunk_events mid 0 chunks @
                [case ending of
                   None \<Rightarrow> complete_event mid (length chunks)
                 | Some e \<Rightarrow> error_event mid (length chunks) e])))"

definition sendMessageStreamWithEvents ::
  "(jstring \<Rightarrow> jstring option) \<Rightarrow> (jstring \<Rightarrow> json option) \<Rightarrow> fastgpt_config
     \<Rightarrow> (nat \<Rightarrow> fetch_result) \<Rightarrow> (nat \<Rightarrow> real) \<Rightarrow> (nat \<Rightarrow> bool) \<Rightarrow> jstring
     \<Rightarrow> streaming_event list" where
  "sendMessageStreamWithEvents = stream_with_events createEnhancedStreamGenerator"

definition sendMessageWithHistoryStreamWithEvents ::
  "(jstring \<Rightarrow> jstring option) \<Rightarrow> (jstring \<Rightarrow> json option) \<Rightarrow> fastgpt_config
     \<Rightarrow> (nat \<Rightarrow> fetch_result) \<Rightarrow> (nat \<Rightarrow> real) \<Rightarrow> (nat \<Rightarrow> bool) \<Rightarrow> jstring
     \<Rightarrow> streaming_event list" where
  "sendMessageWithHistoryStreamWithEvents =
     stream_with_events createEnhancedStreamGeneratorWithHistory"

text \<open>A terminal event: \<open>complete\<close>, \<open>error\<close> or \<open>abort\<close>.\<close>

definition terminal :: "streaming_event \<Rightarrow> bool" where
  "terminal ev = (etype ev = CompleteEvent \<or> etype ev = ErrorEvent \<or> etype ev = AbortEvent)"

section \<open>Example inputs\<close>

text \<open>
  The inputs of the concrete evaluations below: a valid configuration, the protocol the
  platform's URL parser reports for its base URL, and error responses with and without a
  JSON body.
\<close>

definition example_config :: fastgpt_config where
  "example_config =
     \<lparr>baseUrl = js ''https://fastgpt.io/'', appId = js ''app-1'', apiKey = js ''fastgpt-key''\<rparr>"

definition example_url_protocol :: "jstring \<Rightarrow> jstring option" where
  "example_url_protocol u = (if u = js ''https://fastgpt.io/'' then Some (js ''https:'') else None)"

definition json_error_response :: "nat \<Rightarrow> string \<Rightarrow> jstring option \<Rightarrow> http_response" where
  "json_error_response st txt hdr =
     \<lparr>status = st, statusText = js txt, retryAfterHeader = hdr, jsonBody = Inr (JObj []),
      body = None\<rparr>"

definition html_error_response :: "nat \<Rightarrow> string \<Rightarrow> http_response" where
  "html_error_response st txt =
     \<lparr>status = st, statusText = js txt, retryAfterHeader = None,
      jsonBody = Inl (JsError False (js ''SyntaxError'') (js ''Unexpected token < in JSON'')),
      body = None\<rparr>"

definition bad_request_response :: http_response where
  "bad_request_response =
     \<lparr>status = 400, statusText = js ''Bad Request'', retryAfterHeader = None,
      jsonBody = Inr (JObj [(js ''message'', JStr (js ''Server error: malformed chatId''))]),
      body = None\<rparr>"

text \<open>
  Three lines of an event stream (a frame with the content \<open>Hello\<close>, a frame whose JSON is
  cut off, a frame with the content \<open> world\<close>), and the same stream as two chunks that
  split the second line.
\<close>

definition hello_line :: string where
  "hello_line = ''data: {\"choices\":[{\"delta\":{\"content\":\"Hello\"}}]}''"

definition world_line :: string where
  "world_line = ''data: {\"choices\":[{\"delta\":{\"content\":\" world\"}}]}''"

definition broken_line :: string where
  "broken_line = ''data: {\"choices''"

definition chunk_one :: string where
  "chunk_one = ''data: {\"choices\":[{\"delta\":{\"content\":\"Hello\"}}]}\<newline>\<newline>data: {\"ch''"

definition chunk_two :: string where
  "chunk_two = ''oices\<newline>\<newline>data: {\"choices\":[{\"delta\":{\"content\":\" world\"}}]}\<newline>\<newline>''"

text \<open>
  The same three lines delivered in other ways: one line with its two line feeds per read
  (\<open>hello_chunk\<close> below, \<open>broken_chunk\<close>, \<open>world_chunk\<close>), and two reads whose boundary
  lies inside the first data frame (\<open>split_one\<close>, \<open>split_two\<close>).
\<close>

definition broken_chunk :: string where
  "broken_chunk = ''data: {\"choices\<newline>\<newline>''"

definition world_chunk :: string where
  "world_chunk = ''data: {\"choices\":[{\"delta\":{\"content\":\" world\"}}]}\<newline>\<newline>''"

definition split_one :: string where
  "split_one = ''data: {\"choices\":[{\"delta\":{\"con''"

definition split_two :: string where
  "split_two = ''tent\":\"Hello\"}}]}\<newline>\<newline>data: {\"choices\<newline>\<newline>data: {\"choices\":[{\"delta\":{\"content\":\" world\"}}]}\<newline>\<newline>''"

text \<open>
  A successful streaming response whose body arrives in two chunks (the frame \<open>Hello\<close>;
  the frame \<open> world\<close> and the end marker), and a signal that is found aborted from the
  second iteration of the read loop on.
\<close>

definition done_line :: string where
  "done_line = ''data: [DONE]''"

definition hello_chunk :: string where
  "hello_chunk = ''data: {\"choices\":[{\"delta\":{\"content\":\"Hello\"}}]}\<newline>\<newline>''"

definition world_done_chunk :: string where
  "world_done_chunk =
     ''data: {\"choices\":[{\"delta\":{\"content\":\" world\"}}]}\<newline>\<newline>data: [DONE]\<newline>\<newline>''"

definition aborted_after_first :: "nat \<Rightarrow> bool" where
  "aborted_after_first i = (1 \<le> i)"

definition hello_world_response :: http_response where
  "hello_world_response =
     \<lparr>status = 200, statusText = js ''OK'', retryAfterHeader = None,
      jsonBody = Inl (JsError False (js ''SyntaxError'') (js ''Unexpected token d in JSON'')),
      body = Some [ReadValue hello_chunk, ReadValue world_done_chunk]\<rparr>"

section \<open>Properties of the URL builder\<close>

text \<open>
  The builder in terms of its own test. \<open>buildApiUrl\<close> removes one trailing slash of the
  base URL and puts \<open>/api\<close> between base and endpoint exactly when
  \<open>baseUrl.includes("/api")\<close> is false of the stripped base URL. This is a test for the four
  code units anywhere in the URL, the host name included, and not a test for a path segment.
\<close>

lemma buildApiUrl_by_includes:
  "buildApiUrl \<lparr>baseUrl = js ''https://fastgpt.io/'', appId = a, apiKey = k\<rparr>
       (js ''/v1/chat/completions'')
     = js ''https://fastgpt.io/api/v1/chat/completions''
   \<and> (\<forall>config b e. baseUrl config = b @ js ''/'' \<and> \<not> js_includes b (js ''/api'')
          \<longrightarrow> buildApiUrl config e = b @ js ''/api'' @ e)
   \<and> (\<forall>config b e. baseUrl config = b @ js ''/'' \<and> js_includes b (js ''/api'')
          \<longrightarrow> buildApiUrl config e = b @ e)
   \<and> (\<forall>config e. \<not> (baseUrl config \<noteq> [] \<and> last (baseUrl config) = 47)
          \<and> \<not> js_includes (baseUrl config) (js ''/api'')
          \<longrightarrow> buildApiUrl config e = baseUrl config @ js ''/api'' @ e)
   \<and> (\<forall>config e. \<not> (baseUrl config \<noteq> [] \<and> last (baseUrl config) = 47)
          \<and> js_includes (baseUrl config) (js ''/api'')
          \<longrightarrow> buildApiUrl config e = baseUrl config @ e)"
proof -
  have concrete:
    "buildApiUrl \<lparr>baseUrl = js ''https://fastgpt.io/'', appId = a, apiKey = k\<rparr>
       (js ''/v1/chat/completions'')
     = js ''https://fastgpt.io/api/v1/chat/completions''"
    by (simp add: buildApiUrl_def strip_trailing_slash_def js_def js_startsWith_def)
  have strip: "strip_trailing_slash (b @ js ''/'') = b" for b
    by (simp add: strip_trailing_slash_def js_def)
  have g1: "\<forall>config b e. baseUrl config = b @ js ''/'' \<and> \<not> js_includes b (js ''/api'')
          \<longrightarrow> buildApiUrl config e = b @ js ''/api'' @ e"
    by (simp add: buildApiUrl_def strip)
  have g2: "\<forall>config b e. baseUrl config = b @ js ''/'' \<and> js_includes b (js ''/api'')
          \<longrightarrow> buildApiUrl config e = b @ e"
    by (simp add: buildApiUrl_def strip)
  have g3: "\<forall>config e. \<not> (baseUrl config \<noteq> [] \<and> last (baseUrl config) = 47)
          \<and> \<not> js_includes (baseUrl config) (js ''/api'')
          \<longrightarrow> buildApiUrl config e = baseUrl config @ js ''/api'' @ e"
    by (simp add: buildApiUrl_def strip_trailing_slash_def)
  have g4: "\<forall>config e. \<not> (baseUrl config \<noteq> [] \<and> last (baseUrl config) = 47)
          \<and> js_includes (baseUrl config) (js ''/api'')
          \<longrightarrow> buildApiUrl config e = baseUrl config @ e"
    by (simp add: buildApiUrl_def strip_trailing_slash_def)
  from concrete g1 g2 g3 g4 show ?thesis
    by (intro conjI)
qed

lemma buildApiUrl_by_includes_examples:
  "buildApiUrl \<lparr>baseUrl = js ''http://localhost:3000/api/'', appId = js ''app'', apiKey = js ''key''\<rparr>
       (js ''/v1/chat/completions'')
     = js ''http://localhost:3000/api/v1/chat/completions''
   \<and> buildApiUrl \<lparr>baseUrl = js ''http://h/'', appId = js ''app'', apiKey = js ''key''\<rparr> (js ''/v1'')
     = js ''http://h/api/v1''
   \<and> buildApiUrl \<lparr>baseUrl = js ''http://h'', appId = js ''app'', apiKey = js ''key''\<rparr> (js ''/v1'')
     = js ''http://h/api/v1''
   \<and> buildApiUrl \<lparr>baseUrl = js ''http://h/api'', appId = js ''app'', apiKey = js ''key''\<rparr> (js ''/v1'')
     = js ''http://h/api/v1''
   \<and> buildApiUrl \<lparr>baseUrl = js ''https://api.example.com'', appId = js ''app'', apiKey = js ''key''\<rparr>
       (js ''/v1/chat/completions'')
     = js ''https://api.example.com/v1/chat/completions''"
proof -
  note t = buildApiUrl_by_includes [of "js ''app''" "js ''key''"]
  note ev = js_def js_startsWith_def
  have a: "buildApiUrl \<lparr>baseUrl = js ''http://localhost:3000/api/'', appId = js ''app'', apiKey = js ''key''\<rparr>
       (js ''/v1/chat/completions'') = js ''http://localhost:3000/api'' @ js ''/v1/chat/completions''"
    using t [THEN conjunct2, THEN conjunct2, THEN conjunct1, rule_format,
        of "\<lparr>baseUrl = js ''http://localhost:3000/api/'', appId = js ''app'', apiKey = js ''key''\<rparr>"
           "js ''http://localhost:3000/api''" "js ''/v1/chat/completions''"]
    by (simp add: ev)
  have b: "buildApiUrl \<lparr>baseUrl = js ''http://h/'', appId = js ''app'', apiKey = js ''key''\<rparr> (js ''/v1'')
       = js ''http://h'' @ js ''/api'' @ js ''/v1''"
    using t [THEN conjunct2, THEN conjunct1, rule_format,
        of "\<lparr>baseUrl = js ''http://h/'', appId = js ''app'', apiKey = js ''key''\<rparr>"
           "js ''http://h''" "js ''/v1''"]
    by (simp add: ev)
  have c: "buildApiUrl \<lparr>baseUrl = js ''http://h'', appId = js ''app'', apiKey = js ''key''\<rparr> (js ''/v1'')
       = js ''http://h'' @ js ''/api'' @ js ''/v1''"
    using t [THEN conjunct2, THEN conjunct2, THEN conjunct2, THEN conjunct1, rule_format,
        of "\<lparr>baseUrl = js ''http://h'', appId = js ''app'', apiKey = js ''key''\<rparr>" "js ''/v1''"]
    by (simp add: ev)
  have d: "buildApiUrl \<lparr>baseUrl = js ''http://h/api'', appId = js ''app'', apiKey = js ''key''\<rparr> (js ''/v1'')
       = js ''http://h/api'' @ js ''/v1''"
    using t [THEN conjunct2, THEN conjunct2, THEN conjunct2, THEN conjunct2, rule_format,
        of "\<lparr>baseUrl = js ''http://h/api'', appId = js ''app'', apiKey = js ''key''\<rparr>" "js ''/v1''"]
    by (simp add: ev)
  have e: "buildApiUrl \<lparr>baseUrl = js ''https://api.example.com'', appId = js ''app'', apiKey = js ''key''\<rparr>
       (js ''/v1/chat/completions'') = js ''https://api.example.com'' @ js ''/v1/chat/completions''"
    using t [THEN conjunct2, THEN conjunct2, THEN conjunct2, THEN conjunct2, rule_format,
        of "\<lparr>baseUrl = js ''https://api.example.com'', appId = js ''app'', apiKey = js ''key''\<rparr>"
           "js ''/v1/chat/completions''"]
    by (simp add: ev)
  show ?thesis
    using a b c d e by (simp add: js_def)
qed

text \<open>
  Claim C9, evaluated where it fails. The base URL \<open>https://api.fastgpt.io\<close> has no
  \<open>/api\<close> path segment, and the claim (as the test "should build correct API URL with base
  URL without /api" of the repository) asks for one to be inserted. The substring test of
  the code finds \<open>/api\<close> in \<open>//api.fastgpt.io\<close>, the host name, so nothing is inserted and
  the request goes to \<open>https://api.fastgpt.io/v1/chat/completions\<close>. For the base URLs
  \<open>https://fastgpt.io\<close>, \<open>https://fastgpt.io/\<close> and \<open>https://fastgpt.io/api\<close> the result
  is \<open>https://fastgpt.io/api/v1/chat/completions\<close>, as the claim says.
\<close>

theorem buildApiUrl_api_host_gets_no_api_segment:
  "js_includes (js ''https://api.fastgpt.io'') (js ''/api'')
   \<and> buildApiUrl \<lparr>baseUrl = js ''https://api.fastgpt.io'', appId = js ''app'', apiKey = js ''key''\<rparr>
       (js ''/v1/chat/completions'')
     = js ''https://api.fastgpt.io/v1/chat/completions''
   \<and> buildApiUrl \<lparr>baseUrl = js ''https://api.fastgpt.io/'', appId = js ''app'', apiKey = js ''key''\<rparr>
       (js ''/v1/chat/completions'')
     = js ''https://api.fastgpt.io/v1/chat/completions''
   \<and> buildApiUrl \<lparr>baseUrl = js ''https://fastgpt.io'', appId = js ''app'', apiKey = js ''key''\<rparr>
       (js ''/v1/chat/completions'')
     = js ''https://fastgpt.io/api/v1/chat/completions''
   \<and> buildApiUrl \<lparr>baseUrl = js ''https://fastgpt.io/'', appId = js ''app'', apiKey = js ''key''\<rparr>
       (js ''/v1/chat/completions'')
     = js ''https://fastgpt.io/api/v1/chat/completions''
   \<and> buildApiUrl \<lparr>baseUrl = js ''https://fastgpt.io/api'', appId = js ''app'', apiKey = js ''key''\<rparr>
       (js ''/v1/chat/completions'')
     = js ''https://fastgpt.io/api/v1/chat/completions''"
  by (simp add: buildApiUrl_def strip_trailing_slash_def js_def js_startsWith_def)

section \<open>Properties of the retry delay\<close>

lemma jitter_bound:
  fixes d m rnd :: real
  assumes "0 \<le> rnd" "rnd < 1" "d \<le> m"
  shows "d + rnd * 0.1 * d \<le> m + \<bar>m\<bar> / 10"
proof (cases "0 \<le> d")
  case True
  have "rnd * d \<le> 1 * d"
    using assms(2) True by (intro mult_right_mono) auto
  then have "d + rnd * 0.1 * d \<le> d + d / 10" by simp
  also have "\<dots> \<le> m + m / 10" using assms(3) by simp
  also have "\<dots> \<le> m + \<bar>m\<bar> / 10" by simp
  finally show ?thesis .
next
  case False
  then have "rnd * d \<le> 0"
    using assms(1) by (simp add: mult_nonneg_nonpos)
  then have "d + rnd * 0.1 * d \<le> d" by simp
  also have "\<dots> \<le> m + \<bar>m\<bar> / 10" using assms(3) by simp
  finally show ?thesis .
qed

text \<open>
  Claim C5, as amended. For every attempt index, every retry policy and every draw
  \<open>rnd\<close> of \<open>Math.random()\<close> in \<open>[0, 1)\<close>, the delay computed for a rate-limit error is at
  most \<open>maxDelay\<close>; for any other error the jitter is added after the cap, and the delay is
  at most \<open>maxDelay\<close> plus a tenth of its absolute value.
\<close>

theorem calculateRetryDelay_bounded:
  assumes "0 \<le> rnd" and "rnd < 1"
  shows "calculateRetryDelay k options e rnd \<le> maxDelay options + \<bar>maxDelay options\<bar> / 10
         \<and> (isRateLimitError e \<longrightarrow> calculateRetryDelay k options e rnd \<le> maxDelay options)"
proof (cases "isRateLimitError e")
  case True
  then have "calculateRetryDelay k options e rnd \<le> maxDelay options"
    by (simp add: calculateRetryDelay_def)
  moreover have "maxDelay options \<le> maxDelay options + \<bar>maxDelay options\<bar> / 10" by simp
  ultimately show ?thesis by linarith
next
  case False
  have "min (baseDelay options * backoffMultiplier options ^ k) (maxDelay options) \<le> maxDelay options"
    by simp
  from jitter_bound [OF assms this] False show ?thesis
    by (simp add: calculateRetryDelay_def Let_def)
qed

theorem calculateRetryDelay_bounded_witness:
  "calculateRetryDelay 2 defaultRetryOptions
       (new_Error (js ''Server error: FastGPT service is temporarily unavailable'')) (1/2) = 4200
   \<and> calculateRetryDelay 2 defaultRetryOptions
       (new_Error (js ''Server error: FastGPT service is temporarily unavailable'')) (1/2) \<le> 11000
   \<and> calculateRetryDelay 2 defaultRetryOptions
       (new_Error (js ''Rate limit exceeded: Too many requests'')) (1/2) \<le> 10000"
proof -
  have r: "(0::real) \<le> 1/2" "(1/2::real) < 1" by simp_all
  have s: "isRateLimitError (new_Error (js ''Rate limit exceeded: Too many requests''))"
    by (simp add: new_Error_def js_def js_startsWith_def)
  have v: "calculateRetryDelay 2 defaultRetryOptions
       (new_Error (js ''Server error: FastGPT service is temporarily unavailable'')) (1/2) = 4200"
    by (simp add: calculateRetryDelay_def defaultRetryOptions_def new_Error_def js_def
        js_startsWith_def)
  from calculateRetryDelay_bounded [OF r, of 2 defaultRetryOptions
      "new_Error (js ''Server error: FastGPT service is temporarily unavailable'')"]
    calculateRetryDelay_bounded [OF r, of 2 defaultRetryOptions
      "new_Error (js ''Rate limit exceeded: Too many requests'')"] s v
  show ?thesis
    by (simp add: defaultRetryOptions_def)
qed

text \<open>
  Claim C5 as stated fails: with \<open>maxDelay = 1500\<close>, the delay before the third attempt
  (attempt index 1) of a server error is capped at 1500 and then raised by the jitter.
\<close>

theorem calculateRetryDelay_exceeds_maxDelay:
  "maxDelay \<lparr>maxRetries = 3, baseDelay = 1000, maxDelay = 1500, backoffMultiplier = 2\<rparr>
     < calculateRetryDelay 1
         \<lparr>maxRetries = 3, baseDelay = 1000, maxDelay = 1500, backoffMultiplier = 2\<rparr>
         (new_Error (js ''Server error: FastGPT service is temporarily unavailable'')) (1/2)"
  by (simp add: calculateRetryDelay_def new_Error_def js_def js_startsWith_def)

section \<open>Properties of the error classification\<close>

text \<open>
  Claim C8, as amended. For every response with status 401 or 403, \<open>parseErrorResponse\<close>
  returns \<open>retryable = false\<close>; the kind is \<open>authentication\<close> when the body parses as
  JSON, and \<open>unknown\<close> (the generic error of the \<open>catch\<close> branch) when it does not.
\<close>

theorem parseErrorResponse_401_403:
  assumes "status r = 401 \<or> status r = 403"
  shows "retryable (parseErrorResponse r) = Some False
         \<and> (\<forall>d. jsonBody r = Inr d \<longrightarrow> errType (parseErrorResponse r) = Authentication)
         \<and> (\<forall>e. jsonBody r = Inl e \<longrightarrow> errType (parseErrorResponse r) = Unknown)"
  using assms
  by (cases "jsonBody r") (auto simp: parseErrorResponse_def generic_error_def)

theorem parseErrorResponse_401_403_witness:
  "retryable (parseErrorResponse
      \<lparr>status = 403, statusText = js ''Forbidden'', retryAfterHeader = None,
       jsonBody = Inr (JObj [(js ''message'', JStr (js ''no access''))]), body = None\<rparr>) = Some False
   \<and> errType (parseErrorResponse
      \<lparr>status = 403, statusText = js ''Forbidden'', retryAfterHeader = None,
       jsonBody = Inr (JObj [(js ''message'', JStr (js ''no access''))]), body = None\<rparr>) = Authentication"
  using parseErrorResponse_401_403 [of
      "\<lparr>status = 403, statusText = js ''Forbidden'', retryAfterHeader = None,
        jsonBody = Inr (JObj [(js ''message'', JStr (js ''no access''))]), body = None\<rparr>"]
  by simp

text \<open>
  Claim C8 as stated fails: a 401 response whose body is not JSON (here \<open>response.json()\<close>
  rejects with a \<open>SyntaxError\<close>) is classified \<open>unknown\<close>, not \<open>authentication\<close>.
\<close>

theorem parseErrorResponse_401_unparsable_body:
  "errType (parseErrorResponse
      \<lparr>status = 401, statusText = js ''Unauthorized'', retryAfterHeader = None,
       jsonBody = Inl (JsError False (js ''SyntaxError'') (js ''Unexpected token < in JSON'')),
       body = None\<rparr>) = Unknown"
  by (simp add: parseErrorResponse_def generic_error_def)

section \<open>Properties of the retry executor\<close>

text \<open>
  When every attempt throws an error that \<open>isRetryableError\<close> accepts, the loop runs until
  the attempt with index \<open>maxRetries\<close> and throws what that attempt threw.
\<close>

lemma retry_loop_all_retryable:
  assumes fail: "\<And>n. \<exists>e. operation n = Inl e \<and> isRetryableError e"
  shows "attempt \<le> maxRetries options \<Longrightarrow>
         attempts (executeWithRetry_loop operation options rnd attempt lastError)
           = maxRetries options + 1 - attempt
         \<and> result (executeWithRetry_loop operation options rnd attempt lastError)
           = operation (maxRetries options)
         \<and> length (delays (executeWithRetry_loop operation options rnd attempt lastError))
           = maxRetries options - attempt"
proof (induction "maxRetries options - attempt" arbitrary: attempt lastError)
  case 0
  then have eq: "attempt = maxRetries options" by simp
  from fail [of attempt] obtain e where e: "operation attempt = Inl e" by blast
  show ?case
    using e eq by (subst (1 2 3) executeWithRetry_loop.simps) (simp add: throw_lastError_def)
next
  case (Suc k)
  then have lt: "attempt < maxRetries options" by simp
  from fail [of attempt] obtain e where e: "operation attempt = Inl e" "isRetryableError e"
    by blast
  have k: "k = maxRetries options - (attempt + 1)" using Suc.hyps(2) by simp
  have le: "attempt + 1 \<le> maxRetries options" using lt by simp
  note ih = Suc.hyps(1) [OF k le, of "Some e"]
  have unfold: "executeWithRetry_loop operation options rnd attempt lastError =
      (let delay = calculateRetryDelay attempt options e (rnd attempt);
           run = executeWithRetry_loop operation options rnd (attempt + 1) (Some e)
       in run \<lparr>attempts := attempts run + 1, delays := delay # delays run\<rparr>)"
    using e lt by (subst executeWithRetry_loop.simps) simp
  show ?case
    using ih lt by (auto simp: unfold Let_def)
qed

text \<open>An error that \<open>isRetryableError\<close> rejects ends the call at once.\<close>

lemma retry_not_retryable:
  assumes "operation 0 = Inl e" and "\<not> isRetryableError e"
  shows "executeWithRetry operation options rnd = \<lparr>result = Inl e, attempts = 1, delays = []\<rparr>"
  using assms
  by (simp add: executeWithRetry_def executeWithRetry_loop.simps throw_lastError_def)

lemma retryable_messages:
  "isRetryableError (new_Error (js ''Rate limit exceeded: Too many requests''))"
  "isRetryableError (new_Error (js ''Server error: FastGPT service is temporarily unavailable''))"
  "isRetryableError (new_Error (js ''Request timeout: The server took too long to respond''))"
  by (simp_all add: new_Error_def js_def js_startsWith_def)

lemma retryable_status_operation:
  assumes "st \<in> {429, 500, 502, 503, 504, 408}"
    and "fetch n = FetchResolved r" "status r = st" "jsonBody r = Inr d"
  shows "\<exists>e. sendMessage_operation fetch n = Inl e \<and> isRetryableError e"
    and "\<exists>e. makeTestRequest_operation fetch n = Inl e \<and> isRetryableError e"
  using assms retryable_messages
  by (auto simp: sendMessage_operation_def makeTestRequest_operation_def response_ok_def
      parseErrorResponse_def)

lemma example_config_valid: "validateConfig example_url_protocol example_config = None"
  by (simp add: validateConfig_def example_url_protocol_def example_config_def js_def)

text \<open>
  Claim C2, as amended. With a valid configuration and the default retry policy
  (\<open>maxRetries = 3\<close>), when every attempt is answered with the same status from
  \<open>{429, 500, 502, 503, 504, 408}\<close> and a body that parses as JSON, \<open>sendMessage\<close> and
  \<open>testConnection\<close> call \<open>fetch\<close> exactly four times and then report the failure.
\<close>

theorem retryable_status_json_body_four_attempts:
  assumes valid: "validateConfig url_protocol config = None"
    and st: "st \<in> {429, 500, 502, 503, 504, 408}"
    and persistent: "\<forall>n. \<exists>r d. fetch n = FetchResolved r \<and> status r = st \<and> jsonBody r = Inr d"
  shows "attempts (sendMessage url_protocol config fetch rnd) = 4
         \<and> isl (result (sendMessage url_protocol config fetch rnd))
         \<and> attempts (testConnection url_protocol config fetch rnd) = 4
         \<and> \<not> ctr_success (result (testConnection url_protocol config fetch rnd))"
proof -
  have s: "\<exists>e. sendMessage_operation fetch n = Inl e \<and> isRetryableError e" for n
    using persistent retryable_status_operation(1) [OF st] by metis
  have t: "\<exists>e. makeTestRequest_operation fetch n = Inl e \<and> isRetryableError e" for n
    using persistent retryable_status_operation(2) [OF st] by metis
  have le: "0 \<le> maxRetries defaultRetryOptions" by simp
  note a = retry_loop_all_retryable [of "sendMessage_operation fetch", OF s le, of rnd None]
  note b = retry_loop_all_retryable [of "makeTestRequest_operation fetch", OF t le, of rnd None]
  have m: "maxRetries defaultRetryOptions = 3" by (simp add: defaultRetryOptions_def)
  have a1: "attempts (sendMessage url_protocol config fetch rnd) = 4"
    using a valid by (simp add: sendMessage_def executeWithRetry_def m)
  have a2: "isl (result (sendMessage url_protocol config fetch rnd))"
    using a valid s [of 3] by (auto simp: sendMessage_def executeWithRetry_def m)
  have b1: "attempts (testConnection url_protocol config fetch rnd) = 4"
    using b valid by (simp add: testConnection_def makeTestRequest_def executeWithRetry_def m Let_def)
  have b2: "\<not> ctr_success (result (testConnection url_protocol config fetch rnd))"
    using b valid t [of 3]
    by (auto simp: testConnection_def makeTestRequest_def executeWithRetry_def m Let_def)
  from a1 a2 b1 b2 show ?thesis by simp
qed


theorem retryable_status_json_body_witness:
  "attempts (sendMessage example_url_protocol example_config
       (\<lambda>n. FetchResolved (json_error_response 503 ''Service Unavailable'' None)) (\<lambda>n. 0)) = 4
   \<and> attempts (testConnection example_url_protocol example_config
       (\<lambda>n. FetchResolved (json_error_response 503 ''Service Unavailable'' None)) (\<lambda>n. 0)) = 4"
proof -
  have st: "(503::nat) \<in> {429, 500, 502, 503, 504, 408}" by simp
  have p: "\<forall>n. \<exists>r d. (\<lambda>n. FetchResolved (json_error_response 503 ''Service Unavailable'' None)) n
              = FetchResolved r \<and> status r = 503 \<and> jsonBody r = Inr d"
    by (simp add: json_error_response_def)
  from retryable_status_json_body_four_attempts [OF example_config_valid st p, of "\<lambda>n. 0"]
  show ?thesis by simp
qed

text \<open>
  Claim C2 as stated fails: a 429 response whose body is not JSON gets the generic
  classification (\<open>retryable = false\<close>, since 429 is below 500), and \<open>sendMessage\<close> gives up
  after one \<open>fetch\<close>.
\<close>

theorem status_429_unparsable_body_one_attempt:
  "attempts (sendMessage example_url_protocol example_config
       (\<lambda>n. FetchResolved (html_error_response 429 ''Too Many Requests'')) (\<lambda>n. 0)) = 1"
proof -
  have "sendMessage_operation (\<lambda>n. FetchResolved (html_error_response 429 ''Too Many Requests'')) 0
          = Inl (new_Error (js ''HTTP 429: Too Many Requests''))"
    by (simp add: sendMessage_operation_def html_error_response_def response_ok_def
        parseErrorResponse_def generic_error_def show_nat.simps js_def)
  moreover have "\<not> isRetryableError (new_Error (js ''HTTP 429: Too Many Requests''))"
    by (simp add: new_Error_def js_def js_startsWith_def)
  ultimately show ?thesis
    using example_config_valid by (simp add: sendMessage_def retry_not_retryable)
qed

lemma bad_request_classified:
  "parseErrorResponse bad_request_response
     = \<lparr>code = Some 400, message = JStr (js ''Server error: malformed chatId''),
        errType = Validation, retryable = Some False, retryAfter = None\<rparr>"
  by (simp add: bad_request_response_def parseErrorResponse_def message_or_def js_def)

lemma bad_request_retried:
  "attempts (sendMessage example_url_protocol example_config
       (\<lambda>n. FetchResolved bad_request_response) rnd) = 4"
proof -
  have op: "sendMessage_operation (\<lambda>n. FetchResolved bad_request_response) n
      = Inl (new_Error (js ''Server error: malformed chatId''))" for n
    by (simp add: sendMessage_operation_def bad_request_classified)
       (simp add: bad_request_response_def response_ok_def)
  have r: "isRetryableError (new_Error (js ''Server error: malformed chatId''))"
    by (simp add: new_Error_def js_def js_startsWith_def)
  have all: "\<exists>e. sendMessage_operation (\<lambda>n. FetchResolved bad_request_response) n = Inl e
      \<and> isRetryableError e" for n
    using op r by simp
  have le: "0 \<le> maxRetries defaultRetryOptions" by simp
  note a = retry_loop_all_retryable [of "sendMessage_operation (\<lambda>n. FetchResolved bad_request_response)",
      OF all le, of rnd None]
  have m: "maxRetries defaultRetryOptions = 3" by (simp add: defaultRetryOptions_def)
  show ?thesis
    using a example_config_valid by (simp add: sendMessage_def executeWithRetry_def m)
qed

text \<open>
  Claim C4, evaluated where it fails. A 505 response with the JSON body \<open>{}\<close> is classified
  \<open>unknown\<close> with \<open>retryable = true\<close>, but the thrown \<open>Error\<close> carries only the message
  \<open>HTTP 505: HTTP Version Not Supported\<close>, which \<open>isRetryableError\<close> does not recognise:
  \<open>sendMessage\<close> rethrows after the first attempt, without any sleep. In the other
  direction, a 400 response is classified \<open>validation\<close> with \<open>retryable = false\<close>, but when
  the message of its body contains \<open>Server error\<close> the executor retries it: four attempts.
\<close>

theorem status_505_marked_retryable_not_retried:
  "retryable (parseErrorResponse (json_error_response 505 ''HTTP Version Not Supported'' None))
     = Some True
   \<and> sendMessage example_url_protocol example_config
       (\<lambda>n. FetchResolved (json_error_response 505 ''HTTP Version Not Supported'' None)) rnd
     = \<lparr>result = Inl (new_Error (js ''HTTP 505: HTTP Version Not Supported'')), attempts = 1,
        delays = []\<rparr>
   \<and> retryable (parseErrorResponse bad_request_response) = Some False
   \<and> attempts (sendMessage example_url_protocol example_config
        (\<lambda>n. FetchResolved bad_request_response) rnd) = 4"
proof -
  have p: "parseErrorResponse (json_error_response 505 ''HTTP Version Not Supported'' None)
      = \<lparr>code = Some 505, message = JStr (js ''HTTP 505: HTTP Version Not Supported''),
         errType = Unknown, retryable = Some True, retryAfter = None\<rparr>"
    by (simp add: json_error_response_def parseErrorResponse_def message_or_def
        show_nat.simps js_def)
  have "sendMessage_operation
          (\<lambda>n. FetchResolved (json_error_response 505 ''HTTP Version Not Supported'' None)) 0
          = Inl (new_Error (js ''HTTP 505: HTTP Version Not Supported''))"
    by (simp add: sendMessage_operation_def p) (simp add: json_error_response_def response_ok_def)
  moreover have "\<not> isRetryableError (new_Error (js ''HTTP 505: HTTP Version Not Supported''))"
    by (simp add: new_Error_def js_def js_startsWith_def)
  ultimately have "sendMessage example_url_protocol example_config
       (\<lambda>n. FetchResolved (json_error_response 505 ''HTTP Version Not Supported'' None)) rnd
     = \<lparr>result = Inl (new_Error (js ''HTTP 505: HTTP Version Not Supported'')), attempts = 1,
        delays = []\<rparr>"
    using example_config_valid by (simp add: sendMessage_def retry_not_retryable)
  moreover have "retryable (parseErrorResponse
      (json_error_response 505 ''HTTP Version Not Supported'' None)) = Some True"
    by (simp add: p)
  moreover have "retryable (parseErrorResponse bad_request_response) = Some False"
    by (simp add: bad_request_classified)
  moreover note bad_request_retried [of rnd]
  ultimately show ?thesis
    by (intro conjI)
qed

text \<open>The message of the classified error does not depend on the \<open>Retry-After\<close> header.\<close>

lemma parseErrorResponse_message_header:
  "message (parseErrorResponse (r\<lparr>retryAfterHeader := h\<rparr>)) = message (parseErrorResponse r)"
  by (simp add: parseErrorResponse_def generic_error_def split: sum.splits option.splits)

lemma sendMessage_operation_header:
  "sendMessage_operation (\<lambda>n. FetchResolved ((r n)\<lparr>retryAfterHeader := h n\<rparr>))
     = sendMessage_operation (\<lambda>n. FetchResolved (r n))"
  by (rule ext) (simp add: sendMessage_operation_def parseErrorResponse_message_header response_ok_def)

text \<open>
  Claim C6, evaluated where it fails. The run of \<open>sendMessage\<close> does not depend on the
  \<open>Retry-After\<close> headers of the responses at all. For a persistent 429 with the header
  \<open>Retry-After: 30\<close>, \<open>parseErrorResponse\<close> parses \<open>retryAfter = 30\<close>, yet the delays slept are
  the capped exponential ones: 2000, 4000 and 8000 milliseconds.
\<close>

theorem retry_after_header_ignored:
  "sendMessage url_protocol config (\<lambda>n. FetchResolved ((r n)\<lparr>retryAfterHeader := h n\<rparr>)) rnd
     = sendMessage url_protocol config (\<lambda>n. FetchResolved (r n)) rnd
   \<and> retryAfter (parseErrorResponse (json_error_response 429 ''Too Many Requests'' (Some (js ''30''))))
     = Some (IntVal 30)
   \<and> delays (sendMessage example_url_protocol example_config
        (\<lambda>n. FetchResolved (json_error_response 429 ''Too Many Requests'' (Some (js ''30'')))) rnd)
     = [2000, 4000, 8000]"
proof -
  have a: "sendMessage url_protocol config (\<lambda>n. FetchResolved ((r n)\<lparr>retryAfterHeader := h n\<rparr>)) rnd
     = sendMessage url_protocol config (\<lambda>n. FetchResolved (r n)) rnd"
    unfolding sendMessage_def sendMessage_operation_header ..
  have b: "retryAfter (parseErrorResponse (json_error_response 429 ''Too Many Requests'' (Some (js ''30''))))
     = Some (IntVal 30)"
    by (simp add: json_error_response_def parseErrorResponse_def parse_retry_after_def
        js_parseInt_def js_whitespace_def is_digit_def digits_value_def js_def)
  have op: "sendMessage_operation
       (\<lambda>n. FetchResolved (json_error_response 429 ''Too Many Requests'' (Some (js ''30'')))) n
       = Inl (new_Error (js ''Rate limit exceeded: Too many requests''))" for n
    by (simp add: sendMessage_operation_def json_error_response_def response_ok_def
        parseErrorResponse_def)
  have rl: "isRateLimitError (new_Error (js ''Rate limit exceeded: Too many requests''))"
       "isRetryableError (new_Error (js ''Rate limit exceeded: Too many requests''))"
    by (simp_all add: new_Error_def js_def js_startsWith_def)
  have c: "delays (sendMessage example_url_protocol example_config
        (\<lambda>n. FetchResolved (json_error_response 429 ''Too Many Requests'' (Some (js ''30'')))) rnd)
     = [2000, 4000, 8000]"
    using example_config_valid
    by (simp add: sendMessage_def executeWithRetry_def executeWithRetry_loop.simps op rl
        defaultRetryOptions_def calculateRetryDelay_def throw_lastError_def)
  from a b c show ?thesis by simp
qed

section \<open>Properties of the stream decoders\<close>

text \<open>
  The decoder reads byte by byte, so decoding two chunks one after the other gives the text
  of their concatenation.
\<close>

lemma decode_append:
  "decode d (a @ b) =
     (let (d1, t1) = decode d a; (d2, t2) = decode d1 b in (d2, t1 @ t2))"
  by (induction a arbitrary: d) (auto simp: Let_def split: prod.splits)

lemma decode_append_text:
  "snd (decode d (a @ b)) = snd (decode d a) @ snd (decode (fst (decode d a)) b)"
  by (simp add: decode_append Let_def split: prod.splits)

lemma decode_append_state:
  "fst (decode d (a @ b)) = fst (decode (fst (decode d a)) b)"
  by (simp add: decode_append Let_def split: prod.splits)

text \<open>
  Splitting a text at its line feeds, and what a text appended to it changes: all lines
  but the last stay, and the last one is continued.
\<close>

lemma js_split_lines_nonempty: "js_split_lines s \<noteq> []"
  by (induction s) (auto split: list.splits)

lemma js_split_lines_no_newline: "10 \<notin> set s \<Longrightarrow> js_split_lines s = [s]"
  by (induction s) auto

lemma js_split_lines_line: "10 \<notin> set l \<Longrightarrow> js_split_lines (l @ 10 # s) = l # js_split_lines s"
  by (induction l) auto

lemma last_split_no_newline: "10 \<notin> set (last (js_split_lines s))"
proof (induction s)
  case Nil
  show ?case by simp
next
  case (Cons c s)
  then show ?case
    using js_split_lines_nonempty [of s]
    by (cases "js_split_lines s") (auto split: if_splits)
qed

lemma split_append:
  "butlast (js_split_lines (x @ y))
     = butlast (js_split_lines x) @ butlast (js_split_lines (last (js_split_lines x) @ y))
   \<and> last (js_split_lines (x @ y)) = last (js_split_lines (last (js_split_lines x) @ y))"
proof (induction x)
  case Nil
  show ?case by simp
next
  case (Cons c x)
  obtain l ls where s: "js_split_lines x = l # ls"
    using js_split_lines_nonempty [of x] by (cases "js_split_lines x") auto
  obtain l' ls' where s': "js_split_lines (x @ y) = l' # ls'"
    using js_split_lines_nonempty [of "x @ y"] by (cases "js_split_lines (x @ y)") auto
  show ?case
  proof (cases "c = 10")
    case True
    then show ?thesis
      using Cons js_split_lines_nonempty [of x] js_split_lines_nonempty [of "x @ y"]
      by simp
  next
    case False
    show ?thesis
    proof (cases ls)
      case Nil
      have nl: "10 \<notin> set l"
        using last_split_no_newline [of x] s Nil by simp
      have x: "x = l"
      proof -
        have "10 \<notin> set x"
        proof
          assume "10 \<in> set x"
          then obtain a b where "x = a @ 10 # b" "10 \<notin> set a"
            by (meson split_list_first)
          then have "js_split_lines x = a # js_split_lines b"
            by (simp add: js_split_lines_line)
          with s Nil js_split_lines_nonempty [of b] show False by simp
        qed
        then show ?thesis using s by (simp add: js_split_lines_no_newline)
      qed
      show ?thesis
        using False s Nil x js_split_lines_nonempty [of "l @ y"]
        by (cases "js_split_lines (l @ y)") auto
    next
      case (Cons m ms)
      have ne: "ls \<noteq> []" using Cons by simp
      have ne': "ls' \<noteq> []"
      proof
        assume "ls' = []"
        with s' Cons.IH s ne show False
          using js_split_lines_nonempty [of "last (l # ls) @ y"] by (auto split: if_splits)
      qed
      show ?thesis
        using False s s' ne ne' Cons.IH by (auto split: if_splits)
    qed
  qed
qed

text \<open>
  The rest of the buffer is treated like a line of the loop. With reads that all deliver
  bytes and a signal that is never aborted, \<open>processEnhancedStreamResponse\<close> yields what
  the lines of the whole decoded text yield: the partition into chunks does not matter.
\<close>

lemma enhanced_rest_line: "enhanced_rest parse buffer = enhanced_line parse buffer"
  by (auto simp: enhanced_rest_def enhanced_line_def Let_def js_startsWith_def js_def)

lemma lines_yield_split:
  "lines_yield parse s
     = concat (map (enhanced_line parse) (butlast (js_split_lines s)))
       @ enhanced_line parse (last (js_split_lines s))"
proof -
  have "js_split_lines s = butlast (js_split_lines s) @ [last (js_split_lines s)]"
    using js_split_lines_nonempty [of s] by simp
  then have "lines_yield parse s
      = concat (map (enhanced_line parse) (butlast (js_split_lines s) @ [last (js_split_lines s)]))"
    unfolding lines_yield_def by simp
  then show ?thesis by simp
qed

lemma enhanced_loop_values:
  assumes "10 \<notin> set buffer"
  shows "enhanced_loop parse (\<lambda>_. False) i d buffer (map ReadValue chunks)
     = (lines_yield parse (buffer @ snd (decode d (concat chunks))), None)"
  using assms
proof (induction chunks arbitrary: i d buffer)
  case Nil
  then show ?case
    by (simp add: lines_yield_def js_split_lines_no_newline enhanced_rest_line)
next
  case (Cons c chunks)
  obtain d' t where dc: "decode d c = (d', t)" by (cases "decode d c")
  let ?rest = "snd (decode d' (concat chunks))"
  let ?b = "last (js_split_lines (buffer @ t))"
  have nl: "10 \<notin> set ?b" by (rule last_split_no_newline)
  note ih = Cons.IH [OF nl, of "i + 1" d']
  have whole: "snd (decode d (concat (c # chunks))) = t @ ?rest"
    using dc by (simp add: decode_append_text)
  have sp: "butlast (js_split_lines ((buffer @ t) @ ?rest))
              = butlast (js_split_lines (buffer @ t)) @ butlast (js_split_lines (?b @ ?rest))"
       "last (js_split_lines ((buffer @ t) @ ?rest)) = last (js_split_lines (?b @ ?rest))"
    using split_append [of "buffer @ t" ?rest] by simp_all
  have "lines_yield parse (buffer @ t @ ?rest)
      = concat (map (enhanced_line parse) (butlast (js_split_lines (buffer @ t))))
        @ lines_yield parse (?b @ ?rest)"
    using sp by (simp add: lines_yield_split [of parse "buffer @ t @ ?rest"]
        lines_yield_split [of parse "?b @ ?rest"])
  then show ?case
    using dc ih whole by (simp add: Let_def)
qed

theorem processEnhancedStreamResponse_chunking:
  "processEnhancedStreamResponse parse (\<lambda>_. False) (map ReadValue chunks)
     = processEnhancedStreamResponse parse (\<lambda>_. False) [ReadValue (concat chunks)]"
  using enhanced_loop_values [of "[]" parse 0 new_TextDecoder chunks]
    enhanced_loop_values [of "[]" parse 0 new_TextDecoder "[concat chunks]"]
  by (simp add: processEnhancedStreamResponse_def)

lemma processEnhancedStreamResponse_text:
  "processEnhancedStreamResponse parse (\<lambda>_. False) (map ReadValue chunks)
     = (lines_yield parse (snd (decode new_TextDecoder (concat chunks))), None)"
  using enhanced_loop_values [of "[]" parse 0 new_TextDecoder chunks]
  by (simp add: processEnhancedStreamResponse_def)

section \<open>Properties of the event sequence\<close>

text \<open>
  Every run has the shape: events that are not terminal (the \<open>start\<close> and the \<open>chunk\<close>
  events), then one terminal event.
\<close>

lemma chunk_events_not_terminal: "list_all (\<lambda>ev. \<not> terminal ev) (chunk_events mid n chunks)"
  by (induction chunks arbitrary: n) (simp_all add: terminal_def chunk_event_def)

lemma terminal_events:
  "terminal (validation_event ve)" "terminal (error_event mid n e)"
  "terminal (complete_event mid n)" "\<not> terminal (start_event mid)"
  by (simp_all add: terminal_def validation_event_def error_event_def complete_event_def
      start_event_def)

lemma filter_chunk_events: "filter terminal (chunk_events mid n chunks) = []"
  using chunk_events_not_terminal [of mid n chunks]
  by (simp add: filter_empty_conv list_all_iff)

lemma stream_with_events_shape:
  "\<exists>pre t. stream_with_events create url_protocol parse config fetch rnd aborted mid = pre @ [t]
     \<and> terminal t \<and> list_all (\<lambda>ev. \<not> terminal ev) pre"
proof (cases "validateConfig url_protocol config")
  case (Some ve)
  then have "stream_with_events create url_protocol parse config fetch rnd aborted mid
      = [] @ [validation_event ve]"
    by (simp add: stream_with_events_def)
  moreover have "list_all (\<lambda>ev. \<not> terminal ev) []" by simp
  ultimately show ?thesis using terminal_events(1) by blast
next
  case None
  show ?thesis
  proof (cases "result (executeWithRetry (create fetch) defaultRetryOptions rnd)")
    case (Inl e)
    with None have "stream_with_events create url_protocol parse config fetch rnd aborted mid
        = [start_event mid] @ [error_event mid 0 e]"
      by (simp add: stream_with_events_def)
    moreover have "list_all (\<lambda>ev. \<not> terminal ev) [start_event mid]"
      by (simp add: terminal_events)
    ultimately show ?thesis using terminal_events(2) by blast
  next
    case (Inr reads)
    obtain chunks ending where p: "processEnhancedStreamResponse parse aborted reads = (chunks, ending)"
      by (cases "processEnhancedStreamResponse parse aborted reads")
    let ?t = "case ending of None \<Rightarrow> complete_event mid (length chunks)
                | Some e \<Rightarrow> error_event mid (length chunks) e"
    from None Inr p have "stream_with_events create url_protocol parse config fetch rnd aborted mid
        = (start_event mid # chunk_events mid 0 chunks) @ [?t]"
      by (simp add: stream_with_events_def)
    moreover have "terminal ?t"
      by (cases ending) (simp_all add: terminal_events)
    moreover have "list_all (\<lambda>ev. \<not> terminal ev) (start_event mid # chunk_events mid 0 chunks)"
      by (simp add: terminal_events chunk_events_not_terminal)
    ultimately show ?thesis by blast
  qed
qed

lemma one_terminal_last:
  assumes "evs = pre @ [t]" "terminal t" "list_all (\<lambda>ev. \<not> terminal ev) pre"
  shows "length (filter terminal evs) = 1 \<and> evs \<noteq> [] \<and> terminal (last evs)
         \<and> list_all (\<lambda>ev. \<not> terminal ev) (butlast evs)"
  using assms by (simp add: filter_empty_conv list_all_iff)

text \<open>
  Claim C1. The events of \<open>sendMessageStreamWithEvents\<close> and of
  \<open>sendMessageWithHistoryStreamWithEvents\<close>, for a body stream that ends, hold exactly
  one terminal event (\<open>complete\<close>, \<open>error\<close> or \<open>abort\<close>); it is the last event, and every
  event before it, the \<open>start\<close> and the \<open>chunk\<close> events, is not terminal.
\<close>

theorem events_exactly_one_terminal_last:
  "length (filter terminal
      (sendMessageStreamWithEvents url_protocol parse config fetch rnd aborted mid)) = 1
   \<and> terminal (last (sendMessageStreamWithEvents url_protocol parse config fetch rnd aborted mid))
   \<and> list_all (\<lambda>ev. \<not> terminal ev)
        (butlast (sendMessageStreamWithEvents url_protocol parse config fetch rnd aborted mid))
   \<and> length (filter terminal
      (sendMessageWithHistoryStreamWithEvents url_protocol parse config fetch rnd aborted mid)) = 1
   \<and> terminal (last (sendMessageWithHistoryStreamWithEvents url_protocol parse config fetch rnd
        aborted mid))
   \<and> list_all (\<lambda>ev. \<not> terminal ev)
        (butlast (sendMessageWithHistoryStreamWithEvents url_protocol parse config fetch rnd
           aborted mid))"
proof -
  obtain pre t where a: "sendMessageStreamWithEvents url_protocol parse config fetch rnd aborted mid
      = pre @ [t]" "terminal t" "list_all (\<lambda>ev. \<not> terminal ev) pre"
    using stream_with_events_shape [of createEnhancedStreamGenerator]
    unfolding sendMessageStreamWithEvents_def by blast
  obtain pre' t' where b: "sendMessageWithHistoryStreamWithEvents url_protocol parse config fetch
      rnd aborted mid = pre' @ [t']" "terminal t'" "list_all (\<lambda>ev. \<not> terminal ev) pre'"
    using stream_with_events_shape [of createEnhancedStreamGeneratorWithHistory]
    unfolding sendMessageWithHistoryStreamWithEvents_def by blast
  from one_terminal_last [OF a] one_terminal_last [OF b] show ?thesis by simp
qed

section \<open>Properties of validation and of malformed frames\<close>

lemma validateConfig_fails:
  assumes "baseUrl config = [] \<or> appId config = [] \<or> apiKey config = []
           \<or> url_protocol (baseUrl config) = None
           \<or> (\<exists>p. url_protocol (baseUrl config) = Some p \<and> p \<noteq> js ''http:'' \<and> p \<noteq> js ''https:'')"
  shows "\<exists>m. validateConfig url_protocol config = Some (validation_error m)
           \<and> m \<in> {''Base URL is required'', ''App ID is required'', ''API Key is required'',
                 ''Invalid Base URL format'', ''Base URL must use HTTP or HTTPS protocol''}"
proof -
  let ?M = "{''Base URL is required'', ''App ID is required'', ''API Key is required'',
             ''Invalid Base URL format'', ''Base URL must use HTTP or HTTPS protocol''}"
  have found: "\<exists>m. validateConfig url_protocol config = Some (validation_error m) \<and> m \<in> ?M"
    if "validateConfig url_protocol config = Some (validation_error x)" "x \<in> ?M" for x
    using that by (intro exI [of _ x] conjI)
  show ?thesis
  proof (cases "baseUrl config = []")
    case True
    then have "validateConfig url_protocol config = Some (validation_error ''Base URL is required'')"
      by (simp add: validateConfig_def)
    then show ?thesis by (rule found) simp
  next
    case base: False
    show ?thesis
    proof (cases "appId config = []")
      case True
      with base have "validateConfig url_protocol config = Some (validation_error ''App ID is required'')"
        by (simp add: validateConfig_def)
      then show ?thesis by (rule found) simp
    next
      case app: False
      show ?thesis
      proof (cases "apiKey config = []")
        case True
        with base app
        have "validateConfig url_protocol config = Some (validation_error ''API Key is required'')"
          by (simp add: validateConfig_def)
        then show ?thesis by (rule found) simp
      next
        case key: False
        show ?thesis
        proof (cases "url_protocol (baseUrl config)")
          case None
          with base app key
          have "validateConfig url_protocol config = Some (validation_error ''Invalid Base URL format'')"
            by (simp add: validateConfig_def)
          then show ?thesis by (rule found) simp
        next
          case (Some p)
          with assms base app key have "p \<noteq> js ''http:'' \<and> p \<noteq> js ''https:''"
            by simp
          with base app key Some
          have "validateConfig url_protocol config
              = Some (validation_error ''Base URL must use HTTP or HTTPS protocol'')"
            by (simp add: validateConfig_def)
          then show ?thesis by (rule found) simp
        qed
      qed
    qed
  qed
qed

text \<open>
  Claim C10. When the configuration fails validation (an empty base URL, app id or API
  key, a base URL the URL parser rejects, or one whose protocol is neither \<open>http:\<close> nor
  \<open>https:\<close>), \<open>sendMessageStreamWithEvents\<close> and \<open>sendMessageWithHistoryStreamWithEvents\<close>
  emit exactly one event: an \<open>error\<close> event of type \<open>connection\<close>, not recoverable, with
  the message of the validation error (whose own kind is \<open>validation\<close>) and no metadata.
  No \<open>start\<close> event is emitted.
\<close>

theorem invalid_config_single_connection_error:
  assumes "baseUrl config = [] \<or> appId config = [] \<or> apiKey config = []
           \<or> url_protocol (baseUrl config) = None
           \<or> (\<exists>p. url_protocol (baseUrl config) = Some p \<and> p \<noteq> js ''http:'' \<and> p \<noteq> js ''https:'')"
  shows "\<exists>m. validateConfig url_protocol config = Some (validation_error m)
           \<and> m \<in> {''Base URL is required'', ''App ID is required'', ''API Key is required'',
                 ''Invalid Base URL format'', ''Base URL must use HTTP or HTTPS protocol''}
           \<and> errType (validation_error m) = Validation
           \<and> sendMessageStreamWithEvents url_protocol parse config fetch rnd aborted mid
               = [\<lparr>etype = ErrorEvent, edata = None,
                   eerror = Some \<lparr>stype = ConnectionError, smessage = js m, recoverable = False\<rparr>,
                   emetadata = None\<rparr>]
           \<and> sendMessageWithHistoryStreamWithEvents url_protocol parse config fetch rnd aborted mid
               = [\<lparr>etype = ErrorEvent, edata = None,
                   eerror = Some \<lparr>stype = ConnectionError, smessage = js m, recoverable = False\<rparr>,
                   emetadata = None\<rparr>]"
proof -
  let ?M = "{''Base URL is required'', ''App ID is required'', ''API Key is required'',
             ''Invalid Base URL format'', ''Base URL must use HTTP or HTTPS protocol''}"
  obtain m where mm: "validateConfig url_protocol config = Some (validation_error m) \<and> m \<in> ?M"
    using validateConfig_fails [where config = config and url_protocol = url_protocol, OF assms] ..
  note m = mm [THEN conjunct1] and ms = mm [THEN conjunct2]
  have ev: "validation_event (validation_error m)
      = \<lparr>etype = ErrorEvent, edata = None,
         eerror = Some \<lparr>stype = ConnectionError, smessage = js m, recoverable = False\<rparr>,
         emetadata = None\<rparr>"
    by (simp add: validation_event_def validation_error_def)
  have k: "errType (validation_error m) = Validation"
    by (simp add: validation_error_def)
  have a: "sendMessageStreamWithEvents url_protocol parse config fetch rnd aborted mid
      = [\<lparr>etype = ErrorEvent, edata = None,
          eerror = Some \<lparr>stype = ConnectionError, smessage = js m, recoverable = False\<rparr>,
          emetadata = None\<rparr>]"
    using m ev by (simp add: sendMessageStreamWithEvents_def stream_with_events_def)
  have b: "sendMessageWithHistoryStreamWithEvents url_protocol parse config fetch rnd aborted mid
      = [\<lparr>etype = ErrorEvent, edata = None,
          eerror = Some \<lparr>stype = ConnectionError, smessage = js m, recoverable = False\<rparr>,
          emetadata = None\<rparr>]"
    using m ev by (simp add: sendMessageWithHistoryStreamWithEvents_def stream_with_events_def)
  from m ms k a b show ?thesis
    by (intro exI [of _ m] conjI)
qed

theorem invalid_config_witness:
  "sendMessageStreamWithEvents example_url_protocol JSON_parse
       (example_config\<lparr>apiKey := []\<rparr>) (\<lambda>n. FetchRejected NonError) (\<lambda>n. 0) (\<lambda>n. False)
       (js ''msg_1'')
     = [\<lparr>etype = ErrorEvent, edata = None,
         eerror = Some \<lparr>stype = ConnectionError, smessage = js ''API Key is required'',
                        recoverable = False\<rparr>,
         emetadata = None\<rparr>]"
proof -
  have a: "baseUrl (example_config\<lparr>apiKey := []\<rparr>) = [] \<or> appId (example_config\<lparr>apiKey := []\<rparr>) = []
      \<or> apiKey (example_config\<lparr>apiKey := []\<rparr>) = []
      \<or> example_url_protocol (baseUrl (example_config\<lparr>apiKey := []\<rparr>)) = None
      \<or> (\<exists>p. example_url_protocol (baseUrl (example_config\<lparr>apiKey := []\<rparr>)) = Some p
             \<and> p \<noteq> js ''http:'' \<and> p \<noteq> js ''https:'')"
    by simp
  have v: "validateConfig example_url_protocol (example_config\<lparr>apiKey := []\<rparr>)
      = Some (validation_error ''API Key is required'')"
    by (simp add: validateConfig_def example_config_def js_def)
  from invalid_config_single_connection_error [where config = "example_config\<lparr>apiKey := []\<rparr>"
      and url_protocol = example_url_protocol and parse = JSON_parse
      and fetch = "\<lambda>n. FetchRejected NonError" and rnd = "\<lambda>n. 0" and aborted = "\<lambda>n. False"
      and mid = "js ''msg_1''", OF a] v
  show ?thesis by (auto simp: validation_error_def)
qed

text \<open>
  A frame that passes the test of \<open>processStreamResponse\<close> passes the one of
  \<open>processEnhancedStreamResponse\<close>; an empty line and a line with a rejected payload yield
  nothing in either.
\<close>

lemma plain_frame_yield_enhanced:
  assumes "plain_frame d = Yield c"
  shows "enhanced_frame d = [c]"
  using assms
  by (auto simp: plain_frame_def enhanced_frame_def truthy_prop_def
      split: option.splits if_splits jsval.splits)

lemma enhanced_line_empty: "enhanced_line parse [] = []"
  by (simp add: enhanced_line_def js_trim_def)

lemma plain_line_empty: "plain_line parse [] = Skip"
  by (simp add: plain_line_def js_trim_def)

lemma enhanced_line_data:
  assumes "js_startsWith (js_trim l) (js ''data: '')" "js_trim l \<noteq> js ''data: [DONE]''"
    "parse (drop 6 (js_trim l)) = Some d"
  shows "enhanced_line parse l = enhanced_frame d"
  using assms by (auto simp: enhanced_line_def Let_def js_startsWith_def js_def)

lemma plain_line_data:
  assumes "js_startsWith (js_trim l) (js ''data: '')" "js_trim l \<noteq> js ''data: [DONE]''"
    "parse (drop 6 (js_trim l)) = Some d"
  shows "plain_line parse l = plain_frame d"
  using assms by (auto simp: plain_line_def Let_def js_startsWith_def js_def)

lemma enhanced_line_malformed:
  assumes "parse (drop 6 (js_trim l)) = None"
  shows "enhanced_line parse l = []"
  using assms by (simp add: enhanced_line_def Let_def)

lemma plain_line_malformed:
  assumes "parse (drop 6 (js_trim l)) = None"
  shows "plain_line parse l = Skip"
  using assms by (simp add: plain_line_def Let_def)

lemma split_three_frames:
  assumes "10 \<notin> set l1" "10 \<notin> set lm" "10 \<notin> set l3"
  shows "js_split_lines (l1 @ [10, 10] @ lm @ [10, 10] @ l3 @ [10, 10])
           = [l1, [], lm, [], l3, [], []]"
proof -
  have "js_split_lines (l1 @ 10 # 10 # lm @ 10 # 10 # l3 @ 10 # [10])
      = l1 # js_split_lines (10 # lm @ 10 # 10 # l3 @ 10 # [10])"
    using assms(1) by (rule js_split_lines_line)
  also have "js_split_lines (10 # lm @ 10 # 10 # l3 @ 10 # [10])
      = [] # js_split_lines (lm @ 10 # 10 # l3 @ 10 # [10])"
    by simp
  also have "js_split_lines (lm @ 10 # 10 # l3 @ 10 # [10])
      = lm # js_split_lines (10 # l3 @ 10 # [10])"
    using assms(2) by (rule js_split_lines_line)
  also have "js_split_lines (10 # l3 @ 10 # [10]) = [] # js_split_lines (l3 @ 10 # [10])"
    by simp
  also have "js_split_lines (l3 @ 10 # [10]) = l3 # js_split_lines [10]"
    using assms(3) by (rule js_split_lines_line)
  also have "js_split_lines [10] = [[], []]" by simp
  finally show ?thesis by simp
qed

text \<open>
  Three lines, each followed by two line feeds: a data frame whose JSON yields the content
  \<open>c1\<close>, a line whose payload \<open>JSON.parse\<close> rejects, and a data frame that yields \<open>c3\<close>.
  \<open>processEnhancedStreamResponse\<close> yields \<open>c1\<close> and \<open>c3\<close> in this order for every
  partition of the bytes into reads. For \<open>processStreamResponse\<close> the statement covers
  only the delivery of all bytes in one read.
\<close>

lemma malformed_frame_is_skipped:
  assumes f1: "js_startsWith (js_trim l1) (js ''data: '')" "js_trim l1 \<noteq> js ''data: [DONE]''"
      "parse (drop 6 (js_trim l1)) = Some d1" "plain_frame d1 = Yield c1"
    and f3: "js_startsWith (js_trim l3) (js ''data: '')" "js_trim l3 \<noteq> js ''data: [DONE]''"
      "parse (drop 6 (js_trim l3)) = Some d3" "plain_frame d3 = Yield c3"
    and bad: "parse (drop 6 (js_trim lm)) = None"
    and nl: "10 \<notin> set l1" "10 \<notin> set lm" "10 \<notin> set l3"
    and dec: "snd (decode new_TextDecoder (concat chunks))
                = l1 @ [10, 10] @ lm @ [10, 10] @ l3 @ [10, 10]"
  shows "processEnhancedStreamResponse parse (\<lambda>_. False) (map ReadValue chunks) = ([c1, c3], None)
         \<and> processStreamResponse parse [ReadValue (concat chunks)] = ([c1, c3], Returned)"
proof -
  note sp = split_three_frames [OF nl]
  have e1: "enhanced_line parse l1 = [c1]"
    using enhanced_line_data [where parse = parse, OF f1(1-3)] plain_frame_yield_enhanced [OF f1(4)] by simp
  have e3: "enhanced_line parse l3 = [c3]"
    using enhanced_line_data [where parse = parse, OF f3(1-3)] plain_frame_yield_enhanced [OF f3(4)] by simp
  have em: "enhanced_line parse lm = []"
    using bad by (simp add: enhanced_line_malformed)
  have p1: "plain_line parse l1 = Yield c1"
    using plain_line_data [where parse = parse, OF f1(1-3)] f1(4) by simp
  have p3: "plain_line parse l3 = Yield c3"
    using plain_line_data [where parse = parse, OF f3(1-3)] f3(4) by simp
  have pm: "plain_line parse lm = Skip"
    using bad by (simp add: plain_line_malformed)
  have a: "processEnhancedStreamResponse parse (\<lambda>_. False) (map ReadValue chunks) = ([c1, c3], None)"
    by (simp add: processEnhancedStreamResponse_text dec lines_yield_def sp e1 e3 em
        enhanced_line_empty del: append.simps)
  obtain d' where d': "decode new_TextDecoder (concat chunks)
      = (d', l1 @ [10, 10] @ lm @ [10, 10] @ l3 @ [10, 10])"
    using dec by (cases "decode new_TextDecoder (concat chunks)") simp
  have "plain_lines parse [l1, [], lm, [], l3, [], []] = ([c1, c3], None)"
    by (simp add: p1 p3 pm plain_line_empty)
  then have b: "processStreamResponse parse [ReadValue (concat chunks)] = ([c1, c3], Returned)"
    by (simp add: processStreamResponse_def d' sp del: append.simps)
  from a b show ?thesis ..
qed

text \<open>One line followed by two line feeds splits into the line and two empty lines.\<close>

lemma split_frame: "10 \<notin> set l \<Longrightarrow> js_split_lines (l @ [10, 10]) = [l, [], []]"
  using js_split_lines_line [of l "[10]"] by simp

text \<open>
  When each of the three lines arrives with its two line feeds in a read of its own,
  \<open>processStreamResponse\<close> yields \<open>c1\<close> and \<open>c3\<close> in this order: the line that
  \<open>JSON.parse\<close> rejects is logged and the read loop goes on.
\<close>

lemma processStreamResponse_frame_per_read:
  assumes f1: "js_startsWith (js_trim l1) (js ''data: '')" "js_trim l1 \<noteq> js ''data: [DONE]''"
      "parse (drop 6 (js_trim l1)) = Some d1" "plain_frame d1 = Yield c1"
    and f3: "js_startsWith (js_trim l3) (js ''data: '')" "js_trim l3 \<noteq> js ''data: [DONE]''"
      "parse (drop 6 (js_trim l3)) = Some d3" "plain_frame d3 = Yield c3"
    and bad: "parse (drop 6 (js_trim lm)) = None"
    and nl: "10 \<notin> set l1" "10 \<notin> set lm" "10 \<notin> set l3"
    and r1: "decode new_TextDecoder b1 = (dA, l1 @ [10, 10])"
    and r2: "decode dA bm = (dB, lm @ [10, 10])"
    and r3: "decode dB b3 = (dC, l3 @ [10, 10])"
  shows "processStreamResponse parse [ReadValue b1, ReadValue bm, ReadValue b3] = ([c1, c3], Returned)"
proof -
  have p1: "plain_line parse l1 = Yield c1"
    using plain_line_data [where parse = parse, OF f1(1-3)] f1(4) by simp
  have p3: "plain_line parse l3 = Yield c3"
    using plain_line_data [where parse = parse, OF f3(1-3)] f3(4) by simp
  have pm: "plain_line parse lm = Skip"
    using bad by (simp add: plain_line_malformed)
  have a: "plain_lines parse (js_split_lines (l1 @ [10, 10])) = ([c1], None)"
    by (simp add: split_frame [OF nl(1)] p1 plain_line_empty del: append.simps)
  have b: "plain_lines parse (js_split_lines (lm @ [10, 10])) = ([], None)"
    by (simp add: split_frame [OF nl(2)] pm plain_line_empty del: append.simps)
  have c: "plain_lines parse (js_split_lines (l3 @ [10, 10])) = ([c3], None)"
    by (simp add: split_frame [OF nl(3)] p3 plain_line_empty del: append.simps)
  show ?thesis
    by (simp add: processStreamResponse_def r1 r2 r3 a b c del: append.simps decode.simps)
qed

section \<open>Evaluations of the stream decoders\<close>

text \<open>Bytes below 128 decode to themselves.\<close>

lemma decode_byte_ascii:
  assumes "bytes_needed d = 0" "(of_char b :: nat) \<le> 127"
  shows "decode_byte d b = (d\<lparr>bom_seen := True\<rparr>, [of_char b])"
  using assms
  by (simp add: decode_byte_def utf8_byte_def utf8_lead_def utf16_units_def)

lemma decode_ascii:
  assumes "bytes_needed d = 0" "list_all (\<lambda>b. (of_char b :: nat) \<le> 127) bs"
  shows "decode d bs = (if bs = [] then d else d\<lparr>bom_seen := True\<rparr>, map of_char bs)"
  using assms
proof (induction bs arbitrary: d)
  case Nil
  show ?case by simp
next
  case (Cons b bs)
  have n: "bytes_needed (d\<lparr>bom_seen := True\<rparr>) = 0" using Cons.prems(1) by simp
  show ?case
    using Cons.prems Cons.IH [OF n]
    by (simp add: decode_byte_ascii)
qed

lemmas json_eval = JSON_parse_def js_def is_digit_def number_char_def js_trim_def
  js_whitespace_def js_startsWith_def

lemma hello_line_parse:
  "js_trim (js hello_line) = js hello_line"
  "JSON_parse (drop 6 (js hello_line))
     = Some (JObj [(js ''choices'', JArr [JObj [(js ''delta'', JObj [(js ''content'', JStr (js ''Hello''))])]])])"
  by (simp_all add: hello_line_def json_eval)

lemma world_line_parse:
  "js_trim (js world_line) = js world_line"
  "JSON_parse (drop 6 (js world_line))
     = Some (JObj [(js ''choices'', JArr [JObj [(js ''delta'', JObj [(js ''content'', JStr (js '' world''))])]])])"
  by (simp_all add: world_line_def json_eval)

lemma broken_line_parse:
  "js_trim (js broken_line) = js broken_line"
  "JSON_parse (drop 6 (js broken_line)) = None"
  by (simp_all add: broken_line_def json_eval)

lemma content_frame:
  "s \<noteq> [] \<Longrightarrow> plain_frame (JObj [(js ''choices'', JArr [JObj [(js ''delta'', JObj [(js ''content'', JStr s)])]])])
     = Yield (JStr s)"
  by (simp add: plain_frame_def truthy_prop_def js_def)

lemma chunks_text:
  "snd (decode new_TextDecoder (concat [chunk_one, chunk_two]))
     = js hello_line @ [10, 10] @ js broken_line @ [10, 10] @ js world_line @ [10, 10]"
proof -
  have "list_all (\<lambda>b. (of_char b :: nat) \<le> 127) (concat [chunk_one, chunk_two])"
    by (simp add: chunk_one_def chunk_two_def)
  then have "snd (decode new_TextDecoder (concat [chunk_one, chunk_two]))
      = map of_char (concat [chunk_one, chunk_two])"
    by (subst decode_ascii) (simp_all add: new_TextDecoder_def)
  also have "\<dots> = js hello_line @ [10, 10] @ js broken_line @ [10, 10] @ js world_line @ [10, 10]"
    by (simp add: chunk_one_def chunk_two_def hello_line_def broken_line_def world_line_def js_def)
  finally show ?thesis .
qed

lemma malformed_frame_examples:
  "processEnhancedStreamResponse JSON_parse (\<lambda>_. False) (map ReadValue [chunk_one, chunk_two])
     = ([JStr (js ''Hello''), JStr (js '' world'')], None)
   \<and> processStreamResponse JSON_parse [ReadValue (concat [chunk_one, chunk_two])]
     = ([JStr (js ''Hello''), JStr (js '' world'')], Returned)"
proof -
  have p1: "js_startsWith (js_trim (js hello_line)) (js ''data: '')"
           "js_trim (js hello_line) \<noteq> js ''data: [DONE]''"
    by (simp_all add: hello_line_parse(1)) (simp_all add: hello_line_def js_def js_startsWith_def)
  have p3: "js_startsWith (js_trim (js world_line)) (js ''data: '')"
           "js_trim (js world_line) \<noteq> js ''data: [DONE]''"
    by (simp_all add: world_line_parse(1)) (simp_all add: world_line_def js_def js_startsWith_def)
  have q1: "JSON_parse (drop 6 (js_trim (js hello_line)))
     = Some (JObj [(js ''choices'', JArr [JObj [(js ''delta'', JObj [(js ''content'', JStr (js ''Hello''))])]])])"
    by (simp add: hello_line_parse)
  have q3: "JSON_parse (drop 6 (js_trim (js world_line)))
     = Some (JObj [(js ''choices'', JArr [JObj [(js ''delta'', JObj [(js ''content'', JStr (js '' world''))])]])])"
    by (simp add: world_line_parse)
  have qm: "JSON_parse (drop 6 (js_trim (js broken_line))) = None"
    by (simp add: broken_line_parse)
  have y1: "plain_frame (JObj [(js ''choices'', JArr [JObj [(js ''delta'', JObj [(js ''content'', JStr (js ''Hello''))])]])])
      = Yield (JStr (js ''Hello''))"
    by (rule content_frame) (simp add: js_def)
  have y3: "plain_frame (JObj [(js ''choices'', JArr [JObj [(js ''delta'', JObj [(js ''content'', JStr (js '' world''))])]])])
      = Yield (JStr (js '' world''))"
    by (rule content_frame) (simp add: js_def)
  have nl: "10 \<notin> set (js hello_line)" "10 \<notin> set (js broken_line)" "10 \<notin> set (js world_line)"
    by (simp_all add: hello_line_def broken_line_def world_line_def js_def)
  show ?thesis
    by (rule malformed_frame_is_skipped [where parse = JSON_parse,
          OF p1 q1 y1 p3 q3 y3 qm nl chunks_text])
qed

text \<open>
  Claim C3, evaluated where it fails. One frame with the content \<open>Hi\<close>, delivered as one
  chunk, makes \<open>processStreamResponse\<close> yield \<open>Hi\<close>. Delivered as two chunks that split
  the line, it yields nothing: each chunk is split into lines on its own, the first piece
  is no JSON and the second has no \<open>data: \<close> prefix. \<open>processEnhancedStreamResponse\<close>, which
  keeps the unfinished line in its buffer, yields \<open>Hi\<close> for the same two chunks.
\<close>

theorem processStreamResponse_loses_split_line:
  "processStreamResponse JSON_parse
       [ReadValue ''data: {\"choices\":[{\"delta\":{\"content\":\"Hi\"}}]}\<newline>\<newline>'']
     = ([JStr (js ''Hi'')], Returned)
   \<and> processStreamResponse JSON_parse
       [ReadValue ''data: {\"choices\":[{\"del'',
        ReadValue ''ta\":{\"content\":\"Hi\"}}]}\<newline>\<newline>'']
     = ([], Returned)
   \<and> processEnhancedStreamResponse JSON_parse (\<lambda>_. False)
       [ReadValue ''data: {\"choices\":[{\"del'',
        ReadValue ''ta\":{\"content\":\"Hi\"}}]}\<newline>\<newline>'']
     = ([JStr (js ''Hi'')], None)"
proof -
  have d0: "bytes_needed new_TextDecoder = 0" by (simp add: new_TextDecoder_def)
  have d1: "bytes_needed (new_TextDecoder\<lparr>bom_seen := True\<rparr>) = 0" by (simp add: new_TextDecoder_def)
  have whole: "decode new_TextDecoder ''data: {\"choices\":[{\"delta\":{\"content\":\"Hi\"}}]}\<newline>\<newline>''
      = (new_TextDecoder\<lparr>bom_seen := True\<rparr>,
         js ''data: {\"choices\":[{\"delta\":{\"content\":\"Hi\"}}]}\<newline>\<newline>'')"
    by (subst decode_ascii [OF d0]) (simp_all add: js_def)
  have part1: "decode new_TextDecoder ''data: {\"choices\":[{\"del''
      = (new_TextDecoder\<lparr>bom_seen := True\<rparr>, js ''data: {\"choices\":[{\"del'')"
    by (subst decode_ascii [OF d0]) (simp_all add: js_def)
  have part2: "decode (new_TextDecoder\<lparr>bom_seen := True\<rparr>) ''ta\":{\"content\":\"Hi\"}}]}\<newline>\<newline>''
      = (new_TextDecoder\<lparr>bom_seen := True\<rparr>, js ''ta\":{\"content\":\"Hi\"}}]}\<newline>\<newline>'')"
    by (subst decode_ascii [OF d1]) (simp_all add: js_def)
  have both: "snd (decode new_TextDecoder
        (concat [''data: {\"choices\":[{\"del'', ''ta\":{\"content\":\"Hi\"}}]}\<newline>\<newline>'']))
      = js ''data: {\"choices\":[{\"delta\":{\"content\":\"Hi\"}}]}\<newline>\<newline>''"
    by (subst decode_ascii [OF d0]) (simp_all add: js_def)
  note ev = plain_line_def plain_frame_def truthy_prop_def json_eval
  have l1: "plain_lines JSON_parse
      (js_split_lines (js ''data: {\"choices\":[{\"delta\":{\"content\":\"Hi\"}}]}\<newline>\<newline>''))
      = ([JStr (js ''Hi'')], None)"
    by (simp add: ev)
  have l2: "plain_lines JSON_parse (js_split_lines (js ''data: {\"choices\":[{\"del'')) = ([], None)"
    by (simp add: ev)
  have l3: "plain_lines JSON_parse
      (js_split_lines (js ''ta\":{\"content\":\"Hi\"}}]}\<newline>\<newline>'')) = ([], None)"
    by (simp add: ev)
  have a: "processStreamResponse JSON_parse
       [ReadValue ''data: {\"choices\":[{\"delta\":{\"content\":\"Hi\"}}]}\<newline>\<newline>'']
     = ([JStr (js ''Hi'')], Returned)"
    by (simp add: processStreamResponse_def whole l1 del: decode.simps)
  have b: "processStreamResponse JSON_parse
       [ReadValue ''data: {\"choices\":[{\"del'',
        ReadValue ''ta\":{\"content\":\"Hi\"}}]}\<newline>\<newline>'']
     = ([], Returned)"
    by (simp add: processStreamResponse_def part1 part2 l2 l3 del: decode.simps)
  have l4: "lines_yield JSON_parse
      (js ''data: {\"choices\":[{\"delta\":{\"content\":\"Hi\"}}]}\<newline>\<newline>'')
      = [JStr (js ''Hi'')]"
    by (simp add: lines_yield_def enhanced_line_def enhanced_frame_def json_eval)
  have "processEnhancedStreamResponse JSON_parse (\<lambda>_. False)
       (map ReadValue [''data: {\"choices\":[{\"del'', ''ta\":{\"content\":\"Hi\"}}]}\<newline>\<newline>''])
     = ([JStr (js ''Hi'')], None)"
    by (simp only: processEnhancedStreamResponse_text both l4)
  then have c: "processEnhancedStreamResponse JSON_parse (\<lambda>_. False)
       [ReadValue ''data: {\"choices\":[{\"del'',
        ReadValue ''ta\":{\"content\":\"Hi\"}}]}\<newline>\<newline>'']
     = ([JStr (js ''Hi'')], None)"
    by simp
  from a b c show ?thesis by (intro conjI)
qed

text \<open>The three example lines: what the decoders read in them.\<close>

lemma example_frames:
  "js_startsWith (js_trim (js hello_line)) (js ''data: '')"
  "js_trim (js hello_line) \<noteq> js ''data: [DONE]''"
  "JSON_parse (drop 6 (js_trim (js hello_line)))
     = Some (JObj [(js ''choices'', JArr [JObj [(js ''delta'', JObj [(js ''content'', JStr (js ''Hello''))])]])])"
  "plain_frame (JObj [(js ''choices'', JArr [JObj [(js ''delta'', JObj [(js ''content'', JStr (js ''Hello''))])]])])
     = Yield (JStr (js ''Hello''))"
  "js_startsWith (js_trim (js world_line)) (js ''data: '')"
  "js_trim (js world_line) \<noteq> js ''data: [DONE]''"
  "JSON_parse (drop 6 (js_trim (js world_line)))
     = Some (JObj [(js ''choices'', JArr [JObj [(js ''delta'', JObj [(js ''content'', JStr (js '' world''))])]])])"
  "plain_frame (JObj [(js ''choices'', JArr [JObj [(js ''delta'', JObj [(js ''content'', JStr (js '' world''))])]])])
     = Yield (JStr (js '' world''))"
  "JSON_parse (drop 6 (js_trim (js broken_line))) = None"
  "10 \<notin> set (js hello_line)" "10 \<notin> set (js broken_line)" "10 \<notin> set (js world_line)"
proof -
  show "js_startsWith (js_trim (js hello_line)) (js ''data: '')"
    by (simp add: hello_line_parse(1)) (simp add: hello_line_def js_def js_startsWith_def)
  show "js_trim (js hello_line) \<noteq> js ''data: [DONE]''"
    by (simp add: hello_line_parse(1)) (simp add: hello_line_def js_def)
  show "js_startsWith (js_trim (js world_line)) (js ''data: '')"
    by (simp add: world_line_parse(1)) (simp add: world_line_def js_def js_startsWith_def)
  show "js_trim (js world_line) \<noteq> js ''data: [DONE]''"
    by (simp add: world_line_parse(1)) (simp add: world_line_def js_def)
  show "JSON_parse (drop 6 (js_trim (js hello_line)))
     = Some (JObj [(js ''choices'', JArr [JObj [(js ''delta'', JObj [(js ''content'', JStr (js ''Hello''))])]])])"
    by (simp add: hello_line_parse)
  show "JSON_parse (drop 6 (js_trim (js world_line)))
     = Some (JObj [(js ''choices'', JArr [JObj [(js ''delta'', JObj [(js ''content'', JStr (js '' world''))])]])])"
    by (simp add: world_line_parse)
  show "JSON_parse (drop 6 (js_trim (js broken_line))) = None"
    by (simp add: broken_line_parse)
  show "plain_frame (JObj [(js ''choices'', JArr [JObj [(js ''delta'', JObj [(js ''content'', JStr (js ''Hello''))])]])])
     = Yield (JStr (js ''Hello''))"
    by (rule content_frame) (simp add: js_def)
  show "plain_frame (JObj [(js ''choices'', JArr [JObj [(js ''delta'', JObj [(js ''content'', JStr (js '' world''))])]])])
     = Yield (JStr (js '' world''))"
    by (rule content_frame) (simp add: js_def)
  show "10 \<notin> set (js hello_line)" "10 \<notin> set (js broken_line)" "10 \<notin> set (js world_line)"
    by (simp_all add: hello_line_def broken_line_def world_line_def js_def)
qed

text \<open>The two reads \<open>split_one\<close> and \<open>split_two\<close> carry the three example lines.\<close>

lemma split_reads_text:
  "snd (decode new_TextDecoder (concat [split_one, split_two]))
     = js hello_line @ [10, 10] @ js broken_line @ [10, 10] @ js world_line @ [10, 10]"
proof -
  have d0: "bytes_needed new_TextDecoder = 0" by (simp add: new_TextDecoder_def)
  have "list_all (\<lambda>b. (of_char b :: nat) \<le> 127) (concat [split_one, split_two])"
    by (simp add: split_one_def split_two_def)
  then have "snd (decode new_TextDecoder (concat [split_one, split_two]))
      = map of_char (concat [split_one, split_two])"
    by (subst decode_ascii [OF d0]) simp_all
  also have "\<dots> = js hello_line @ [10, 10] @ js broken_line @ [10, 10] @ js world_line @ [10, 10]"
    by (simp add: split_one_def split_two_def hello_line_def broken_line_def world_line_def js_def)
  finally show ?thesis .
qed

text \<open>
  Claim C7, evaluated where it fails. The stream is the data frame \<open>Hello\<close>, a data frame
  whose payload is no JSON, and the data frame \<open> world\<close>, each followed by two line
  feeds. Delivered in two reads whose boundary lies inside the first frame,
  \<open>processStreamResponse\<close> yields only \<open> world\<close>: it splits each read into lines on its
  own and keeps no buffer, so the first frame is lost (its first piece is no JSON, its
  second piece has no \<open>data: \<close> prefix). \<open>processEnhancedStreamResponse\<close> yields
  \<open>Hello\<close> and \<open> world\<close> for the same two reads, and so does \<open>processStreamResponse\<close>
  when each frame arrives in a read of its own: the malformed frame ends neither
  decoder.
\<close>

theorem processStreamResponse_frame_split_across_reads:
  "processStreamResponse JSON_parse [ReadValue split_one, ReadValue split_two]
     = ([JStr (js '' world'')], Returned)
   \<and> processEnhancedStreamResponse JSON_parse (\<lambda>_. False) [ReadValue split_one, ReadValue split_two]
     = ([JStr (js ''Hello''), JStr (js '' world'')], None)
   \<and> processStreamResponse JSON_parse
       [ReadValue hello_chunk, ReadValue broken_chunk, ReadValue world_chunk]
     = ([JStr (js ''Hello''), JStr (js '' world'')], Returned)"
proof -
  have d0: "bytes_needed new_TextDecoder = 0" by (simp add: new_TextDecoder_def)
  have d1: "bytes_needed (new_TextDecoder\<lparr>bom_seen := True\<rparr>) = 0"
    by (simp add: new_TextDecoder_def)
  have s1: "decode new_TextDecoder split_one
      = (new_TextDecoder\<lparr>bom_seen := True\<rparr>, js split_one)"
    by (subst decode_ascii [OF d0]) (simp_all add: js_def split_one_def)
  have s2: "decode (new_TextDecoder\<lparr>bom_seen := True\<rparr>) split_two
      = (new_TextDecoder\<lparr>bom_seen := True\<rparr>, js split_two)"
    by (subst decode_ascii [OF d1]) (simp_all add: js_def split_two_def)
  note ev = plain_line_def plain_frame_def truthy_prop_def json_eval
  have l1: "plain_lines JSON_parse (js_split_lines (js split_one)) = ([], None)"
    by (simp add: split_one_def ev)
  have l2: "plain_lines JSON_parse (js_split_lines (js split_two)) = ([JStr (js '' world'')], None)"
    by (simp add: split_two_def ev)
  have a: "processStreamResponse JSON_parse [ReadValue split_one, ReadValue split_two]
     = ([JStr (js '' world'')], Returned)"
    by (simp add: processStreamResponse_def s1 s2 l1 l2 del: decode.simps)
  have "processEnhancedStreamResponse JSON_parse (\<lambda>_. False) (map ReadValue [split_one, split_two])
     = ([JStr (js ''Hello''), JStr (js '' world'')], None)"
    using malformed_frame_is_skipped [where parse = JSON_parse,
          OF example_frames(1-12) split_reads_text] by (rule conjunct1)
  then have b: "processEnhancedStreamResponse JSON_parse (\<lambda>_. False)
       [ReadValue split_one, ReadValue split_two]
     = ([JStr (js ''Hello''), JStr (js '' world'')], None)"
    by simp
  have h: "decode new_TextDecoder hello_chunk
      = (new_TextDecoder\<lparr>bom_seen := True\<rparr>, js hello_line @ [10, 10])"
    by (subst decode_ascii [OF d0]) (simp_all add: js_def hello_chunk_def hello_line_def)
  have m: "decode (new_TextDecoder\<lparr>bom_seen := True\<rparr>) broken_chunk
      = (new_TextDecoder\<lparr>bom_seen := True\<rparr>, js broken_line @ [10, 10])"
    by (subst decode_ascii [OF d1]) (simp_all add: js_def broken_chunk_def broken_line_def)
  have w: "decode (new_TextDecoder\<lparr>bom_seen := True\<rparr>) world_chunk
      = (new_TextDecoder\<lparr>bom_seen := True\<rparr>, js world_line @ [10, 10])"
    by (subst decode_ascii [OF d1]) (simp_all add: js_def world_chunk_def world_line_def)
  have c: "processStreamResponse JSON_parse
       [ReadValue hello_chunk, ReadValue broken_chunk, ReadValue world_chunk]
     = ([JStr (js ''Hello''), JStr (js '' world'')], Returned)"
    by (rule processStreamResponse_frame_per_read [where parse = JSON_parse,
          OF example_frames(1-12) h m w])
  from a b c show ?thesis by (intro conjI)
qed

section \<open>Evaluations of the event sequence\<close>

text \<open>The example response: the generator is created by the first attempt.\<close>

lemma hello_world_generator:
  "result (executeWithRetry (createEnhancedStreamGenerator (\<lambda>n. FetchResolved hello_world_response))
       defaultRetryOptions rnd)
     = Inr [ReadValue hello_chunk, ReadValue world_done_chunk]"
  by (simp add: executeWithRetry_def executeWithRetry_loop.simps createEnhancedStreamGenerator_def
      hello_world_response_def response_ok_def)

lemma example_lines:
  "enhanced_line JSON_parse (js hello_line) = [JStr (js ''Hello'')]"
  "enhanced_line JSON_parse (js world_line) = [JStr (js '' world'')]"
  "enhanced_line JSON_parse (js done_line) = []"
proof -
  have c: "s \<noteq> [] \<Longrightarrow> enhanced_frame (JObj [(js ''choices'', JArr [JObj [(js ''delta'',
          JObj [(js ''content'', JStr s)])]])]) = [JStr s]" for s
    using content_frame [of s] by (rule plain_frame_yield_enhanced)
  have h: "js_startsWith (js hello_line) (js ''data: '')" "js hello_line \<noteq> js ''data: [DONE]''"
    by (simp_all add: hello_line_def js_def js_startsWith_def)
  have w: "js_startsWith (js world_line) (js ''data: '')" "js world_line \<noteq> js ''data: [DONE]''"
    by (simp_all add: world_line_def js_def js_startsWith_def)
  have "enhanced_line JSON_parse (js hello_line) = enhanced_frame (JObj [(js ''choices'',
      JArr [JObj [(js ''delta'', JObj [(js ''content'', JStr (js ''Hello''))])]])])"
    using h hello_line_parse by (intro enhanced_line_data) simp_all
  also have "\<dots> = [JStr (js ''Hello'')]"
    by (rule c) (simp add: js_def)
  finally show "enhanced_line JSON_parse (js hello_line) = [JStr (js ''Hello'')]" .
  have "enhanced_line JSON_parse (js world_line) = enhanced_frame (JObj [(js ''choices'',
      JArr [JObj [(js ''delta'', JObj [(js ''content'', JStr (js '' world''))])]])])"
    using w world_line_parse by (intro enhanced_line_data) simp_all
  also have "\<dots> = [JStr (js '' world'')]"
    by (rule c) (simp add: js_def)
  finally show "enhanced_line JSON_parse (js world_line) = [JStr (js '' world'')]" .
  show "enhanced_line JSON_parse (js done_line) = []"
    by (simp add: enhanced_line_def done_line_def js_trim_def js_whitespace_def js_def)
qed

lemma hello_world_stream:
  "processEnhancedStreamResponse JSON_parse (\<lambda>_. False)
       [ReadValue hello_chunk, ReadValue world_done_chunk]
     = ([JStr (js ''Hello''), JStr (js '' world'')], None)"
proof -
  let ?bytes = "concat [hello_chunk, world_done_chunk]"
  have d0: "bytes_needed new_TextDecoder = 0" by (simp add: new_TextDecoder_def)
  have "list_all (\<lambda>b. (of_char b :: nat) \<le> 127) ?bytes"
    by (simp add: hello_chunk_def world_done_chunk_def)
  then have "snd (decode new_TextDecoder ?bytes) = map of_char ?bytes"
    by (subst decode_ascii [OF d0]) simp_all
  also have "\<dots> = js hello_line @ [10, 10] @ js world_line @ [10, 10] @ js done_line @ [10, 10]"
    by (simp add: js_def hello_chunk_def world_done_chunk_def hello_line_def world_line_def
        done_line_def)
  finally have t: "snd (decode new_TextDecoder ?bytes)
      = js hello_line @ [10, 10] @ js world_line @ [10, 10] @ js done_line @ [10, 10]" .
  have nl: "10 \<notin> set (js hello_line)" "10 \<notin> set (js world_line)" "10 \<notin> set (js done_line)"
    by (simp_all add: hello_line_def world_line_def done_line_def js_def)
  have "processEnhancedStreamResponse JSON_parse (\<lambda>_. False)
       (map ReadValue [hello_chunk, world_done_chunk])
     = ([JStr (js ''Hello''), JStr (js '' world'')], None)"
    unfolding processEnhancedStreamResponse_text t lines_yield_def split_three_frames [OF nl]
    by (simp add: example_lines enhanced_line_empty)
  then show ?thesis by simp
qed

lemma hello_then_abort_stream:
  "processEnhancedStreamResponse JSON_parse aborted_after_first
       [ReadValue hello_chunk, ReadValue world_done_chunk]
     = ([JStr (js ''Hello'')], Some (new_Error (js ''Stream was aborted'')))"
proof -
  have d0: "bytes_needed new_TextDecoder = 0" by (simp add: new_TextDecoder_def)
  have "list_all (\<lambda>b. (of_char b :: nat) \<le> 127) hello_chunk"
    by (simp add: hello_chunk_def)
  then have d: "decode new_TextDecoder hello_chunk
      = (new_TextDecoder\<lparr>bom_seen := True\<rparr>, js hello_line @ [10, 10])"
    by (subst decode_ascii [OF d0]) (simp_all add: js_def hello_chunk_def hello_line_def)
  have nl: "10 \<notin> set (js hello_line)"
    by (simp add: hello_line_def js_def)
  have sp: "js_split_lines (js hello_line @ [10, 10]) = [js hello_line, [], []]"
    using js_split_lines_line [OF nl, of "[10]"] by simp
  have c: "enhanced_catch (new_Error (js ''Stream was aborted'')) = new_Error (js ''Stream was aborted'')"
    by (simp add: new_Error_def js_def js_startsWith_def)
  show ?thesis
    by (simp add: processEnhancedStreamResponse_def d sp c example_lines enhanced_line_empty
        aborted_after_first_def del: decode.simps)
qed

text \<open>
  Two runs of \<open>sendMessageStreamWithEvents\<close> on the example response. Without cancellation
  the events are \<open>start\<close>, two \<open>chunk\<close> events and \<open>complete\<close> with \<open>totalChunks = 2\<close>. When
  the signal is aborted after the first chunk, the events are \<open>start\<close>, one \<open>chunk\<close> and an
  \<open>error\<close> event whose error has type \<open>abort\<close>: the one terminal event.
\<close>

theorem events_witness:
  "sendMessageStreamWithEvents example_url_protocol JSON_parse example_config
       (\<lambda>n. FetchResolved hello_world_response) (\<lambda>n. 0) (\<lambda>i. False) (js ''msg_1'')
     = [start_event (js ''msg_1''),
        chunk_event (js ''msg_1'') 1 (JStr (js ''Hello'')),
        chunk_event (js ''msg_1'') 2 (JStr (js '' world'')),
        complete_event (js ''msg_1'') 2]
   \<and> sendMessageStreamWithEvents example_url_protocol JSON_parse example_config
       (\<lambda>n. FetchResolved hello_world_response) (\<lambda>n. 0) aborted_after_first (js ''msg_1'')
     = [start_event (js ''msg_1''),
        chunk_event (js ''msg_1'') 1 (JStr (js ''Hello'')),
        \<lparr>etype = ErrorEvent, edata = None,
         eerror = Some \<lparr>stype = AbortError, smessage = js ''Request was cancelled or timed out'',
                        recoverable = True\<rparr>,
         emetadata = Some \<lparr>messageId = Some (js ''msg_1''), totalChunks = None,
                           currentChunk = Some 1\<rparr>\<rparr>]
   \<and> length (filter terminal
        (sendMessageStreamWithEvents example_url_protocol JSON_parse example_config
           (\<lambda>n. FetchResolved hello_world_response) (\<lambda>n. 0) aborted_after_first (js ''msg_1''))) = 1"
proof -
  have a: "sendMessageStreamWithEvents example_url_protocol JSON_parse example_config
       (\<lambda>n. FetchResolved hello_world_response) (\<lambda>n. 0) (\<lambda>i. False) (js ''msg_1'')
     = [start_event (js ''msg_1''),
        chunk_event (js ''msg_1'') 1 (JStr (js ''Hello'')),
        chunk_event (js ''msg_1'') 2 (JStr (js '' world'')),
        complete_event (js ''msg_1'') 2]"
    by (simp add: sendMessageStreamWithEvents_def stream_with_events_def example_config_valid
        hello_world_generator hello_world_stream numeral_2_eq_2)
  have e: "classifyStreamingError (new_Error (js ''Stream was aborted''))
      = \<lparr>stype = AbortError, smessage = js ''Request was cancelled or timed out'',
         recoverable = True\<rparr>"
    by (simp add: new_Error_def js_def js_startsWith_def)
  have b: "sendMessageStreamWithEvents example_url_protocol JSON_parse example_config
       (\<lambda>n. FetchResolved hello_world_response) (\<lambda>n. 0) aborted_after_first (js ''msg_1'')
     = [start_event (js ''msg_1''),
        chunk_event (js ''msg_1'') 1 (JStr (js ''Hello'')),
        \<lparr>etype = ErrorEvent, edata = None,
         eerror = Some \<lparr>stype = AbortError, smessage = js ''Request was cancelled or timed out'',
                        recoverable = True\<rparr>,
         emetadata = Some \<lparr>messageId = Some (js ''msg_1''), totalChunks = None,
                           currentChunk = Some 1\<rparr>\<rparr>]"
    by (simp add: sendMessageStreamWithEvents_def stream_with_events_def example_config_valid
        hello_world_generator hello_then_abort_stream error_event_def e)
  note t = events_exactly_one_terminal_last [of example_url_protocol JSON_parse example_config
      "\<lambda>n. FetchResolved hello_world_response" "\<lambda>n. 0" aborted_after_first "js ''msg_1''"]
  from a b t [THEN conjunct1] show ?thesis
    by (intro conjI)
qed

end
